theory Spec2Isabelle
  imports Complex_Main
begin

section \<open>Errors, panics and the array client\<close>

text \<open>
  Go errors are values. The driver produces gRPC status errors (\<open>status.Errorf\<close>) and
  plain errors (\<open>fmt.Errorf\<close>, \<open>errors.New\<close>); the array client produces
  \<open>gopowerstore.APIError\<close> values, of which the driver only asks \<open>NotFound()\<close> and
  \<open>UnableToFailoverFromDestination()\<close>, and opaque errors of other types.
\<close>

datatype code = Unknown | InvalidArgument | FailedPrecondition | Aborted | Internal

datatype APIError =
  APIError (NotFound: bool) (UnableToFailoverFromDestination: bool) (Message: string)

datatype error =
    API APIError
  | Status code string
  | Errorf string

fun codeName :: "code \<Rightarrow> string" where
  "codeName Unknown = ''Unknown''"
| "codeName InvalidArgument = ''InvalidArgument''"
| "codeName FailedPrecondition = ''FailedPrecondition''"
| "codeName Aborted = ''Aborted''"
| "codeName Internal = ''Internal''"

text \<open>\<open>err.Error()\<close>.\<close>

fun Error :: "error \<Rightarrow> string" where
  "Error (API e) = Message e"
| "Error (Status c m) = ''rpc error: code = '' @ codeName c @ '' desc = '' @ m"
| "Error (Errorf m) = m"

text \<open>The type assertion \<open>err.(gopowerstore.APIError)\<close> on a non-nil error.\<close>

fun asAPIError :: "error \<Rightarrow> APIError option" where
  "asAPIError (API e) = Some e"
| "asAPIError _ = None"

text \<open>
  \<open>apiErr, ok := err.(gopowerstore.APIError); ok && !apiErr.NotFound()\<close>, on an
  error that may be nil.
\<close>

fun apiErrorOtherThanNotFound :: "error option \<Rightarrow> bool" where
  "apiErrorOtherThanNotFound (Some (API e)) = (\<not> NotFound e)"
| "apiErrorOtherThanNotFound _ = False"

text \<open>A Go panic ends the call; the two kinds the modelled code can raise.\<close>

datatype panic = IndexOutOfRange | NilPointerDereference

subsection \<open>Data returned by the array\<close>

datatype ActionType = RsActionFailover | RsActionReprotect | RsActionResume
  | RsActionPause | RsActionSync

record FailoverParams =
  IsPlanned :: bool
  Reverse :: bool

record ReplicationSession =
  rsID :: string
  State :: string
  Role :: string

record VolumeGroup =
  vgID :: string
  ProtectionPolicyID :: string

record ProtectionPolicy =
  ppID :: string
  Volumes :: "string list"
  VolumeGroups :: "string list"

record ReplicationRule =
  rrID :: string
  ProtectionPolicies :: "string list"

text \<open>
  One sample of a performance-metrics series. \<open>Timestamp\<close> is what
  \<open>CommonMetricsFields.Timestamp.String()\<close> prints.
\<close>

record Metrics =
  TotalIops :: real
  Timestamp :: string

subsection \<open>Calls issued to an array\<close>

datatype call =
    CallGetVolume string
  | CallGetFS string
  | CallPerformanceMetricsByVolume string
  | CallPerformanceMetricsByFileSystem string
  | CallExecuteActionOnReplicationSession string ActionType "FailoverParams option"
  | CallGetVolumeGroup string
  | CallModifyVolumeGroup string string
  | CallDeleteVolumeGroup string
  | CallGetProtectionPolicyByName string
  | CallDeleteProtectionPolicy string
  | CallGetReplicationRuleByName string
  | CallDeleteReplicationRule string

text \<open>
  The \<open>gopowerstore.Client\<close> interface, as far as the modelled code uses it. The array
  is an external, stateful system: every method answers from the calls issued so far
  (its first argument) and its own arguments. A method returns the pair the Go method
  returns, the error being \<open>None\<close> for \<open>nil\<close>.
\<close>

record Client =
  GetVolume :: "call list \<Rightarrow> string \<Rightarrow> error option"
  GetFS :: "call list \<Rightarrow> string \<Rightarrow> error option"
  PerformanceMetricsByVolume :: "call list \<Rightarrow> string \<Rightarrow> Metrics list \<times> error option"
  PerformanceMetricsByFileSystem :: "call list \<Rightarrow> string \<Rightarrow> Metrics list \<times> error option"
  ExecuteActionOnReplicationSession ::
    "call list \<Rightarrow> string \<Rightarrow> ActionType \<Rightarrow> FailoverParams option \<Rightarrow> error option"
  GetVolumeGroup :: "call list \<Rightarrow> string \<Rightarrow> VolumeGroup \<times> error option"
  ModifyVolumeGroup :: "call list \<Rightarrow> string \<Rightarrow> string \<Rightarrow> error option"
  DeleteVolumeGroup :: "call list \<Rightarrow> string \<Rightarrow> error option"
  GetProtectionPolicyByName :: "call list \<Rightarrow> string \<Rightarrow> ProtectionPolicy \<times> error option"
  DeleteProtectionPolicy :: "call list \<Rightarrow> string \<Rightarrow> error option"
  GetReplicationRuleByName :: "call list \<Rightarrow> string \<Rightarrow> ReplicationRule \<times> error option"
  DeleteReplicationRule :: "call list \<Rightarrow> string \<Rightarrow> error option"

section \<open>Arrays\<close>

record PowerStoreArray =
  Endpoint :: string
  GlobalID :: string
  Username :: string
  Password :: string
  NasName :: string
  BlockProtocol :: string
  Insecure :: bool
  IsDefault :: bool
  NfsAcls :: string
  Client :: "Client option"
  IP :: string

section \<open>Volume handles\<close>

text \<open>\<open>strings.Split(s, sep)\<close> for a one-byte separator: never empty, \<open>[""]\<close> on \<open>""\<close>.\<close>

fun Split :: "string \<Rightarrow> char \<Rightarrow> string list" where
  "Split [] sep = [[]]"
| "Split (c # cs) sep =
     (if c = sep then [] # Split cs sep
      else (case Split cs sep of
              [] \<Rightarrow> [[c]]
            | f # fs \<Rightarrow> (c # f) # fs))"

datatype MountVolume = MountVolume (GetFsType: string)

datatype VolumeCapability = VolumeCapability (GetMount: "MountVolume option")

text \<open>
  The five strings \<open>ParseVolumeID\<close> returns: \<open>localVolumeID\<close>, \<open>arrayID\<close>,
  \<open>protocol\<close>, \<open>remoteVolumeID\<close>, \<open>remoteArrayID\<close>.
\<close>

type_synonym VolumeHandle = "string \<times> string \<times> string \<times> string \<times> string"

text \<open>
  The second portion of a metro volume handle (\<open>len(volumeHandles) > 1\<close>):
  \<open>remoteVolumeHandle[0]\<close> and \<open>remoteVolumeHandle[1]\<close> of the second
  \<open>:\<close>-separated segment, split at \<open>/\<close>.
\<close>

definition parseRemote :: "string list \<Rightarrow> panic + (string \<times> string)" where
  "parseRemote volumeHandles =
     (case volumeHandles of
        _ # seg # _ \<Rightarrow>
          (case Split seg (CHR ''/'') of
             remoteVolumeID # remoteArrayID # _ \<Rightarrow> Inr (remoteVolumeID, remoteArrayID)
           | _ \<Rightarrow> Inl IndexOutOfRange)
      | _ \<Rightarrow> Inr ([], []))"

text \<open>
  \<open>ParseVolumeID\<close> (package \<open>array\<close>). \<open>GetIPListFromString\<close> is
  \<open>common.GetIPListFromString\<close>, a helper outside the modelled files, taken as a
  parameter (it returns \<open>nil\<close>, here \<open>[]\<close>, when the string holds no IP address);
  \<open>IPToArray\<close> is the package variable of that name, where reading a missing key gives
  \<open>""\<close>. \<open>calls\<close> are the array calls issued before, and the result carries the
  calls issued up to the return. The result is a panic, or the returned strings with
  the returned error. \<open>Split\<close> never returns the empty list, so \<open>hd\<close> reads the
  element 0 that the source reads.
\<close>

definition ParseVolumeID ::
  "(string \<Rightarrow> string list) \<Rightarrow> (string \<rightharpoonup> string) \<Rightarrow> string \<Rightarrow> PowerStoreArray option \<Rightarrow>
   VolumeCapability option \<Rightarrow> call list \<Rightarrow> (panic + (VolumeHandle \<times> error option)) \<times> call list" where
  "ParseVolumeID GetIPListFromString IPToArray volumeHandle defaultArray vc calls =
     (if volumeHandle = [] then
        (Inr (([], [], [], [], []),
              Some (Status FailedPrecondition
                      ''unable to parse volume handle. volumeHandle is empty'')), calls)
      else
        let volumeHandles = Split volumeHandle (CHR '':'');
            localVolumeHandle = Split (hd volumeHandles) (CHR ''/'');
            localVolumeID = hd localVolumeHandle;
            remote = (\<lambda>arrayID protocol calls'.
              (case parseRemote volumeHandles of
                 Inl p \<Rightarrow> (Inl p, calls')
               | Inr (remoteVolumeID, remoteArrayID) \<Rightarrow>
                   (Inr ((localVolumeID, arrayID, protocol, remoteVolumeID, remoteArrayID),
                         None), calls')))
        in
        if length localVolumeHandle = 1 then
          (case defaultArray of
             None \<Rightarrow> (Inl NilPointerDereference, calls)
           | Some d \<Rightarrow>
               let arrayID = GlobalID d in
               (case (case vc of None \<Rightarrow> None | Some c \<Rightarrow> GetMount c) of
                  Some m \<Rightarrow>
                    if GetFsType m = ''nfs'' then remote arrayID ''nfs'' calls
                    else remote arrayID ''scsi'' calls
                | None \<Rightarrow>
                    (case Client d of
                       None \<Rightarrow> (Inl NilPointerDereference, calls)
                     | Some cl \<Rightarrow>
                         let calls1 = calls @ [CallGetVolume localVolumeID] in
                         (case GetVolume cl calls localVolumeID of
                            None \<Rightarrow> remote arrayID ''scsi'' calls1
                          | Some _ \<Rightarrow>
                              let calls2 = calls1 @ [CallGetFS localVolumeID] in
                              (case GetFS cl calls1 localVolumeID of
                                 None \<Rightarrow> remote arrayID ''nfs'' calls2
                               | Some err \<Rightarrow>
                                   (case asAPIError err of
                                      Some apiError \<Rightarrow>
                                        if NotFound apiError then
                                          (Inr ((localVolumeID, arrayID, [], [], []),
                                                Some (API apiError)), calls2)
                                        else
                                          (Inr ((localVolumeID, arrayID, [], [], []),
                                                Some (Status Unknown
                                                  (''failure checking volume status: '' @ Error err))),
                                           calls2)
                                    | None \<Rightarrow>
                                        (Inr ((localVolumeID, arrayID, [], [], []),
                                              Some (Status Unknown
                                                (''failure checking volume status: '' @ Error err))),
                                         calls2)))))))
        else
          (case localVolumeHandle of
             _ # ref # rest \<Rightarrow>
               let ips = GetIPListFromString ref;
                   arrayID = (case ips of
                                [] \<Rightarrow> ref
                              | ip # _ \<Rightarrow> (case IPToArray ip of None \<Rightarrow> [] | Some g \<Rightarrow> g))
               in (case rest of
                     [] \<Rightarrow> (Inl IndexOutOfRange, calls)
                   | protocol # _ \<Rightarrow> remote arrayID protocol calls)
           | _ \<Rightarrow> (Inl IndexOutOfRange, calls)))"

text \<open>
  Modelled from the spec: the encoder of a volume handle, which is not among the
  modelled files. The spec gives the wire grammar
  \<open>localID/arrayRef/protocol[:remoteID/remoteArrayID]\<close> and says that encode is the
  inverse join, the remote part being present only for metro pairs. The decoded fields
  mark an absent remote part by two empty strings.
\<close>

definition encode :: "VolumeHandle \<Rightarrow> string" where
  "encode v =
     (case v of (localVolumeID, arrayID, protocol, remoteVolumeID, remoteArrayID) \<Rightarrow>
        localVolumeID @ ''/'' @ arrayID @ ''/'' @ protocol @
        (if remoteVolumeID = [] \<and> remoteArrayID = [] then []
         else '':'' @ remoteVolumeID @ ''/'' @ remoteArrayID))"

text \<open>
  Well-formed non-legacy handles, after the grammar: one or two \<open>:\<close>-separated
  segments; the local segment has exactly three \<open>/\<close>-separated fields, the second of
  which is a GlobalID, not an IP address; the remote segment, when present, has exactly
  two fields, not both empty.
\<close>

definition wellFormedLocal :: "(string \<Rightarrow> string list) \<Rightarrow> string \<Rightarrow> bool" where
  "wellFormedLocal GetIPListFromString seg =
     (case Split seg (CHR ''/'') of
        [localID, arrayID, protocol] \<Rightarrow> GetIPListFromString arrayID = []
      | _ \<Rightarrow> False)"

definition wellFormedRemote :: "string \<Rightarrow> bool" where
  "wellFormedRemote seg =
     (case Split seg (CHR ''/'') of
        [remoteID, remoteArrayID] \<Rightarrow> \<not> (remoteID = [] \<and> remoteArrayID = [])
      | _ \<Rightarrow> False)"

definition wellFormed :: "(string \<Rightarrow> string list) \<Rightarrow> string \<Rightarrow> bool" where
  "wellFormed GetIPListFromString h =
     (case Split h (CHR '':'') of
        [seg] \<Rightarrow> wellFormedLocal GetIPListFromString seg
      | [seg, rseg] \<Rightarrow> wellFormedLocal GetIPListFromString seg \<and> wellFormedRemote rseg
      | _ \<Rightarrow> False)"

text \<open>\<open>strings.Join\<close> with a one-byte separator, used to relate a string to its fields.\<close>

fun Join :: "string list \<Rightarrow> char \<Rightarrow> string" where
  "Join [] sep = []"
| "Join [f] sep = f"
| "Join (f # g # fs) sep = f @ sep # Join (g # fs) sep"

section \<open>IO in progress\<close>

text \<open>
  Instants and durations are counted in nanoseconds. \<open>Time.Sub\<close> saturates at the
  bounds of a 64-bit \<open>Duration\<close>.
\<close>

definition maxDuration :: int where
  "maxDuration = 2 ^ 63 - 1"

definition minDuration :: int where
  "minDuration = - (2 ^ 63)"

definition Sub :: "int \<Rightarrow> int \<Rightarrow> int" where
  "Sub t u =
     (let d = t - u
      in if d > maxDuration then maxDuration else if d < minDuration then minDuration else d)"

text \<open>
  \<open>checkIfEntryIsLatest\<close>. \<open>Parse\<close> is \<open>time.Parse\<close> (layout, value), giving the
  instant or an error; \<open>currentTime\<close> is what \<open>time.Now()\<close> reads in this call.
  \<open>d.Seconds() < 60\<close> is written on the nanoseconds: the float64 that \<open>Seconds()\<close>
  returns is below 60 exactly when \<open>d\<close> is below sixty thousand million.
\<close>

definition checkIfEntryIsLatest ::
  "(string \<Rightarrow> string \<Rightarrow> error + int) \<Rightarrow> int \<Rightarrow> string \<Rightarrow> bool" where
  "checkIfEntryIsLatest Parse currentTime stringTime =
     (case Parse ''2006-01-02T15:04:05Z'' stringTime of
        Inl err \<Rightarrow> False
      | Inr timeFromResponse \<Rightarrow> Sub currentTime timeFromResponse < 60 * 1000000000)"

text \<open>
  The loop \<open>for i := len(resp) - 1; i >= len(resp)-4 && i >= 0; i--\<close> of
  \<open>IsIOInProgress\<close>, from index \<open>i\<close> on; \<open>True\<close> is the \<open>return nil\<close> inside it.
  \<open>Now i\<close> is the clock as read while entry \<open>i\<close> is examined.
\<close>

function lastEntries ::
  "(string \<Rightarrow> string \<Rightarrow> error + int) \<Rightarrow> (nat \<Rightarrow> int) \<Rightarrow> Metrics list \<Rightarrow> int \<Rightarrow> bool" where
  "lastEntries Parse Now resp i =
     (if i \<ge> int (length resp) - 4 \<and> i \<ge> 0 then
        (if TotalIops (resp ! nat i) > 0.0
            \<and> checkIfEntryIsLatest Parse (Now (nat i)) (Timestamp (resp ! nat i))
         then True
         else lastEntries Parse Now resp (i - 1))
      else False)"
  by pat_completeness auto
termination
  by (relation "measure (\<lambda>(Parse, Now, resp, i). nat (i + 1))") auto

declare lastEntries.simps [simp del]

text \<open>
  \<open>Service.IsIOInProgress\<close>: \<open>None\<close> (a nil error) says that IO is in progress.
  \<open>Now calls i\<close> is the clock as read while entry \<open>i\<close> of the series obtained after
  \<open>calls\<close> is examined. The two series types of the client have the two fields read
  here in common and share the record \<open>Metrics\<close>.
\<close>

definition IsIOInProgress ::
  "(string \<Rightarrow> string \<Rightarrow> error + int) \<Rightarrow> (call list \<Rightarrow> nat \<Rightarrow> int) \<Rightarrow> string \<Rightarrow>
   PowerStoreArray option \<Rightarrow> string \<Rightarrow> call list \<Rightarrow> (panic + error option) \<times> call list" where
  "IsIOInProgress Parse Now volID arrayConfig protocol calls =
     (case (case arrayConfig of None \<Rightarrow> None | Some a \<Rightarrow> Client a) of
        None \<Rightarrow> (Inl NilPointerDereference, calls)
      | Some cl \<Rightarrow>
          if protocol = ''scsi'' then
            let calls1 = calls @ [CallPerformanceMetricsByVolume volID] in
            (case PerformanceMetricsByVolume cl calls volID of
               (resp, Some err) \<Rightarrow>
                 (Inr (Some (Errorf (''error '' @ Error err
                                      @ '' while while checking IsIOInProgress''))), calls1)
             | (resp, None) \<Rightarrow>
                 if lastEntries Parse (Now calls1) resp (int (length resp) - 1)
                 then (Inr None, calls1)
                 else (Inr (Some (Errorf ''no IOInProgress'')), calls1))
          else
            let calls1 = calls @ [CallPerformanceMetricsByFileSystem volID] in
            (case PerformanceMetricsByFileSystem cl calls volID of
               (resp, Some err) \<Rightarrow>
                 (Inr (Some (Errorf (''error '' @ Error err
                                      @ '' while while checking IsIOInProgress''))), calls1)
             | (resp, None) \<Rightarrow>
                 if lastEntries Parse (Now calls1) resp (int (length resp) - 1)
                 then (Inr None, calls1)
                 else (Inr (Some (Errorf ''no IOInProgress'')), calls1)))"

section \<open>Replication actions\<close>

text \<open>\<open>validateRSState\<close>: \<open>(inDesiredState, actionRequired, resErr)\<close>.\<close>

definition validateRSState ::
  "ReplicationSession \<Rightarrow> ActionType \<Rightarrow> bool \<times> bool \<times> error option" where
  "validateRSState session action =
     (let state = State session in
      case action of
        RsActionResume \<Rightarrow>
          if state = ''OK'' then (True, False, None) else (False, True, None)
      | RsActionReprotect \<Rightarrow>
          if state = ''OK'' then (True, False, None) else (False, True, None)
      | RsActionPause \<Rightarrow>
          if state = ''Paused'' \<or> state = ''Paused_For_Migration'' \<or> state = ''Paused_For_NDU''
          then (True, False, None) else (False, True, None)
      | RsActionFailover \<Rightarrow>
          if state = ''Failing_Over'' then (False, False, None)
          else if state = ''Failed_Over'' then (True, False, None)
          else (False, True, None)
      | RsActionSync \<Rightarrow> (False, True, None))"

text \<open>
  \<open>ExecuteAction\<close> (the package-level function): the returned error and the calls
  issued to the array. A nil \<open>pstoreClient\<close> panics at the method call.
\<close>

definition ExecuteAction ::
  "ReplicationSession \<Rightarrow> Client option \<Rightarrow> ActionType \<Rightarrow> FailoverParams option \<Rightarrow> call list \<Rightarrow>
   (panic + error option) \<times> call list" where
  "ExecuteAction session pstoreClient action failoverParams calls =
     (case validateRSState session action of
        (inDesiredState, actionRequired, Some err) \<Rightarrow> (Inr (Some err), calls)
      | (inDesiredState, actionRequired, None) \<Rightarrow>
          if \<not> inDesiredState then
            if \<not> actionRequired then
              (Inr (Some (Status Aborted
                 (''Execute action: RS ('' @ rsID session
                    @ '') is still executing previous action''))), calls)
            else
              (case pstoreClient of
                 None \<Rightarrow> (Inl NilPointerDereference, calls)
               | Some cl \<Rightarrow>
                   let calls1 = calls @ [CallExecuteActionOnReplicationSession
                                           (rsID session) action failoverParams] in
                   (case ExecuteActionOnReplicationSession cl calls (rsID session) action
                           failoverParams of
                      Some (API apiError) \<Rightarrow>
                        if UnableToFailoverFromDestination apiError then
                          (Inr (Some (Status Internal
                             (''Execute action: Failed to modify RS ('' @ rsID session
                                @ '') - Error ('' @ Error (API apiError) @ '')''))), calls1)
                        else (Inr None, calls1)
                    | _ \<Rightarrow> (Inr None, calls1)))
          else (Inr None, calls))"

section \<open>The registry of arrays\<close>

text \<open>
  \<open>Locker\<close> holds the arrays by GlobalID and the default array (\<open>None\<close> is the nil
  pointer). The map holds the arrays themselves: \<open>GetPowerStoreArrays\<close>, which builds
  it, stores no nil pointer, and nothing changes an array after it is stored.
  \<open>Service\<close> embeds the locker.
\<close>

record Locker =
  arrays :: "string \<rightharpoonup> PowerStoreArray"
  defaultArray :: "PowerStoreArray option"

record Service = Locker +
  replicationContextPrefix :: string

definition Arrays :: "'a Locker_scheme \<Rightarrow> (string \<rightharpoonup> PowerStoreArray)" where
  "Arrays s = arrays s"

definition GetOneArray :: "'a Locker_scheme \<Rightarrow> string \<Rightarrow> PowerStoreArray option \<times> error option" where
  "GetOneArray s globalID =
     (case arrays s globalID of
        Some arrayConfig \<Rightarrow> (Some arrayConfig, None)
      | None \<Rightarrow> (None, Some (Errorf ''array not found'')))"

definition SetArrays :: "'a Locker_scheme \<Rightarrow> (string \<rightharpoonup> PowerStoreArray) \<Rightarrow> 'a Locker_scheme" where
  "SetArrays s as = s\<lparr>arrays := as\<rparr>"

definition DefaultArray :: "'a Locker_scheme \<Rightarrow> PowerStoreArray option" where
  "DefaultArray s = defaultArray s"

definition SetDefaultArray :: "'a Locker_scheme \<Rightarrow> PowerStoreArray option \<Rightarrow> 'a Locker_scheme" where
  "SetDefaultArray s array = s\<lparr>defaultArray := array\<rparr>"

section \<open>Deleting a storage protection group\<close>

record DeleteStorageProtectionGroupRequest =
  ProtectionGroupId :: string
  ProtectionGroupAttributes :: "string \<rightharpoonup> string"

datatype DeleteStorageProtectionGroupResponse = DeleteStorageProtectionGroupResponse

text \<open>
  The three blocks of \<open>Service.DeleteStorageProtectionGroup\<close> that talk to the array,
  in the order of the source. Each gives \<open>Some err\<close> where the function returns
  \<open>nil, err\<close>, and \<open>None\<close> where it goes on.
\<close>

definition deleteVolumeGroupStep :: "Client \<Rightarrow> string \<Rightarrow> call list \<Rightarrow> error option \<times> call list" where
  "deleteVolumeGroupStep cl groupID calls =
     (let calls1 = calls @ [CallGetVolumeGroup groupID] in
      case GetVolumeGroup cl calls groupID of (vg, err) \<Rightarrow>
        if apiErrorOtherThanNotFound err then
          (Some (Status Internal ''Error: Unable to get Volume Group''), calls1)
        else if vgID vg \<noteq> [] then
          (let unassign =
                 (if ProtectionPolicyID vg \<noteq> [] then
                    (ModifyVolumeGroup cl calls1 [] groupID,
                     calls1 @ [CallModifyVolumeGroup [] groupID])
                  else (None, calls1))
           in case unassign of (err1, calls2) \<Rightarrow>
             if apiErrorOtherThanNotFound err1 then
               (Some (Status Internal ''Error: Unable to un-assign PP from Volume Group''), calls2)
             else
               (let calls3 = calls2 @ [CallDeleteVolumeGroup groupID] in
                case DeleteVolumeGroup cl calls2 groupID of
                  Some (API apiError) \<Rightarrow>
                    if \<not> NotFound apiError then
                      (Some (Status Internal
                         (''Error: '' @ Error (API apiError) @ '': Unable to delete Volume Group'')),
                       calls3)
                    else (None, calls3)
                | _ \<Rightarrow> (None, calls3)))
        else (None, calls1))"

definition deleteProtectionPolicyStep :: "Client \<Rightarrow> string \<Rightarrow> call list \<Rightarrow> error option \<times> call list" where
  "deleteProtectionPolicyStep cl vgName calls =
     (let calls1 = calls @ [CallGetProtectionPolicyByName (''pp-'' @ vgName)] in
      case GetProtectionPolicyByName cl calls (''pp-'' @ vgName) of (pp, err) \<Rightarrow>
        if apiErrorOtherThanNotFound err then
          (Some (Status Internal ''Error: Unable to get the PP''), calls1)
        else if ppID pp \<noteq> [] \<and> length (Volumes pp) = 0 \<and> length (VolumeGroups pp) = 0 then
          (let calls2 = calls1 @ [CallDeleteProtectionPolicy (ppID pp)] in
           if apiErrorOtherThanNotFound (DeleteProtectionPolicy cl calls1 (ppID pp)) then
             (Some (Status Internal ''Error: Unable to delete PP''), calls2)
           else (None, calls2))
        else (None, calls1))"

definition deleteReplicationRuleStep :: "Client \<Rightarrow> string \<Rightarrow> call list \<Rightarrow> error option \<times> call list" where
  "deleteReplicationRuleStep cl vgName calls =
     (let calls1 = calls @ [CallGetReplicationRuleByName (''rr-'' @ vgName)] in
      case GetReplicationRuleByName cl calls (''rr-'' @ vgName) of (rr, err) \<Rightarrow>
        if apiErrorOtherThanNotFound err then
          (Some (Status Internal ''Error: RR not found''), calls1)
        else if rrID rr \<noteq> [] \<and> length (ProtectionPolicies rr) = 0 then
          (let calls2 = calls1 @ [CallDeleteReplicationRule (rrID rr)] in
           if apiErrorOtherThanNotFound (DeleteReplicationRule cl calls1 (rrID rr)) then
             (Some (Status Internal ''Error: Unable to delete replication rule''), calls2)
           else (None, calls2))
        else (None, calls1))"

text \<open>
  \<open>Service.DeleteStorageProtectionGroup\<close>: a panic, an error, or the response, with the
  calls issued. The client of the array is taken once; a nil client panics at the first
  method call.
\<close>

definition DeleteStorageProtectionGroup ::
  "Service \<Rightarrow> DeleteStorageProtectionGroupRequest \<Rightarrow> call list \<Rightarrow>
   (panic + error + DeleteStorageProtectionGroupResponse) \<times> call list" where
  "DeleteStorageProtectionGroup s req calls =
     (let localParams = ProtectionGroupAttributes req;
          groupID = ProtectionGroupId req
      in case localParams (replicationContextPrefix s @ ''globalID'') of
        None \<Rightarrow>
          (Inr (Inl (Status InvalidArgument
             ''missing globalID in protection group attributes'')), calls)
      | Some globalID \<Rightarrow>
          (case Arrays s globalID of
             None \<Rightarrow>
               (Inr (Inl (Status InvalidArgument
                  (''can't find array with global id '' @ globalID))), calls)
           | Some arr \<Rightarrow>
               (case Client arr of
                  None \<Rightarrow> (Inl NilPointerDereference, calls)
                | Some cl \<Rightarrow>
                    (case deleteVolumeGroupStep cl groupID calls of
                       (Some err, calls1) \<Rightarrow> (Inr (Inl err), calls1)
                     | (None, calls1) \<Rightarrow>
                         (case localParams (replicationContextPrefix s @ ''VolumeGroupName'') of
                            None \<Rightarrow>
                              (Inr (Inl (Status Internal
                                 ''Error: Unable to get volume group name'')), calls1)
                          | Some vgName \<Rightarrow>
                              (case deleteProtectionPolicyStep cl vgName calls1 of
                                 (Some err, calls2) \<Rightarrow> (Inr (Inl err), calls2)
                               | (None, calls2) \<Rightarrow>
                                   (case deleteReplicationRuleStep cl vgName calls2 of
                                      (Some err, calls3) \<Rightarrow> (Inr (Inl err), calls3)
                                    | (None, calls3) \<Rightarrow>
                                        (Inr (Inr DeleteStorageProtectionGroupResponse),
                                         calls3))))))))"

text \<open>The calls that the first block issues.\<close>

definition volumeGroupCall :: "call \<Rightarrow> bool" where
  "volumeGroupCall c =
     (case c of CallGetVolumeGroup _ \<Rightarrow> True | CallModifyVolumeGroup _ _ \<Rightarrow> True
      | CallDeleteVolumeGroup _ \<Rightarrow> True | _ \<Rightarrow> False)"

section \<open>Loading the configuration\<close>

record ClientOptions =
  insecure :: bool
  rateLimit :: "int option"

text \<open>
  What the modelled functions take from outside the modelled files: the file system,
  the YAML decoder (an entry of the decoded \<open>arrays\<close> list is \<open>None\<close> for a nil
  pointer), the process environment, \<open>strconv.Atoi\<close>,
  \<open>gopowerstore.NewClientWithArgs\<close>, the constants and helpers of package
  \<open>common\<close>, \<open>strings.ToUpper\<close>, \<open>Service.QueryArrayStatus\<close>, \<open>time.Parse\<close>, the
  clock (see \<open>IsIOInProgress\<close>), and the order in which \<open>range\<close> visits the keys of
  a map, which Go leaves open.
\<close>

record Env =
  ReadFile :: "string \<Rightarrow> error + string"
  Clean :: "string \<Rightarrow> string"
  Unmarshal :: "string \<Rightarrow> error + PowerStoreArray option list"
  LookupEnv :: "string \<Rightarrow> string option"
  EnvThrottlingRateLimit :: string
  Atoi :: "string \<Rightarrow> error + int"
  NewClientWithArgs :: "string \<Rightarrow> string \<Rightarrow> string \<Rightarrow> ClientOptions \<Rightarrow> error + Client"
  AutoDetectTransport :: string
  ToUpper :: "string \<Rightarrow> string"
  GetIPListFromString :: "string \<Rightarrow> string list"
  QueryArrayStatus :: "string \<Rightarrow> bool \<times> error option"
  APIPort :: string
  ArrayStatus :: string
  Parse :: "string \<Rightarrow> string \<Rightarrow> error + int"
  Now :: "call list \<Rightarrow> nat \<Rightarrow> int"
  rangeOrder :: "string list \<Rightarrow> string list"

text \<open>
  The body of the loop of \<open>GetPowerStoreArrays\<close> on one non-nil array: the error it
  returns, or the array as the body leaves it and the \<open>ip\<close> it found. The regular
  expression \<open>^[0-9.]*$\<close> holds of a string of digits and dots.
\<close>

definition initArray :: "Env \<Rightarrow> PowerStoreArray \<Rightarrow> error + (PowerStoreArray \<times> string)" where
  "initArray env array =
     (if GlobalID array = [] then
        Inl (Errorf ''no GlobalID field found in config.yaml - update config.yaml according to the documentation'')
      else
        let clientOptions =
              \<lparr>insecure = Insecure array,
               rateLimit =
                 (case LookupEnv env (EnvThrottlingRateLimit env) of
                    None \<Rightarrow> None
                  | Some throttlingRateLimit \<Rightarrow>
                      (case Atoi env throttlingRateLimit of
                         Inl err \<Rightarrow> None
                       | Inr r \<Rightarrow> if r < 0 then None else Some r))\<rparr>
        in case NewClientWithArgs env (Endpoint array) (Username array) (Password array)
                  clientOptions of
          Inl err \<Rightarrow>
            Inl (Status FailedPrecondition (''unable to create PowerStore client: '' @ Error err))
        | Inr c \<Rightarrow>
            let array1 = array\<lparr>Client := Some c\<rparr>;
                array2 = (if BlockProtocol array1 = []
                          then array1\<lparr>BlockProtocol := AutoDetectTransport env\<rparr> else array1);
                array3 = array2\<lparr>BlockProtocol := ToUpper env (BlockProtocol array2)\<rparr>
            in case GetIPListFromString env (Endpoint array3) of
                 [] \<Rightarrow>
                   (case Split (Endpoint array3) (CHR ''/'') of
                      _ # _ # sub2 # _ \<Rightarrow>
                        if list_all (\<lambda>c. c \<in> set ''0123456789.'') sub2 then
                          Inl (Errorf (''can't get ips from endpoint: '' @ Endpoint array3))
                        else Inr (array3\<lparr>IP := sub2\<rparr>, sub2)
                    | _ \<Rightarrow> Inl (Errorf (''can't get ips from endpoint: '' @ Endpoint array3)))
               | ip # _ \<Rightarrow> Inr (array3\<lparr>IP := ip\<rparr>, ip))"

text \<open>
  The loop over \<open>cfg.Arrays\<close>, from index \<open>i\<close> on. The entries are pointers, and the
  loop changes the arrays they point to, so the model has a store: the address of the
  array at index \<open>i\<close> is \<open>i\<close>, \<open>heap\<close> holds the arrays as the loop has left them, and
  \<open>arrayMap\<close> and \<open>defaultArr\<close> (the variable \<open>defaultArray\<close> of the source) hold
  addresses, \<open>None\<close> being the nil pointer. The result is the error of
  \<open>return nil, nil, nil, err\<close>, or the store, the two maps and the default at a
  \<open>return arrayMap, mapper, defaultArray, nil\<close>.
\<close>

fun arraysLoop ::
  "Env \<Rightarrow> PowerStoreArray option list \<Rightarrow> nat \<Rightarrow> (nat \<rightharpoonup> PowerStoreArray) \<Rightarrow> (string \<rightharpoonup> nat) \<Rightarrow>
   (string \<rightharpoonup> string) \<Rightarrow> nat option \<Rightarrow> bool \<Rightarrow>
   error + ((nat \<rightharpoonup> PowerStoreArray) \<times> (string \<rightharpoonup> nat) \<times> (string \<rightharpoonup> string) \<times> nat option)" where
  "arraysLoop env [] i heap arrayMap mapper defaultArr foundDefault =
     Inr (heap, arrayMap, mapper, defaultArr)"
| "arraysLoop env (None # rest) i heap arrayMap mapper defaultArr foundDefault =
     Inr (heap, arrayMap, mapper, defaultArr)"
| "arraysLoop env (Some array # rest) i heap arrayMap mapper defaultArr foundDefault =
     (case initArray env array of
        Inl err \<Rightarrow> Inl err
      | Inr (array', ip) \<Rightarrow>
          let heap' = heap(i \<mapsto> array');
              arrayMap' = arrayMap(GlobalID array' \<mapsto> i);
              mapper' = mapper(ip \<mapsto> GlobalID array')
          in if IsDefault array' \<and> \<not> foundDefault
             then arraysLoop env rest (i + 1) heap' arrayMap' mapper' (Some i) True
             else arraysLoop env rest (i + 1) heap' arrayMap' mapper' defaultArr foundDefault)"

text \<open>
  \<open>GetPowerStoreArrays\<close>: the error, or the arrays by GlobalID, the GlobalIDs by IP and
  the default array, each pointer followed into the store as it is at the return.
\<close>

definition GetPowerStoreArrays ::
  "Env \<Rightarrow> string \<Rightarrow>
   error + ((string \<rightharpoonup> PowerStoreArray) \<times> (string \<rightharpoonup> string) \<times> PowerStoreArray option)" where
  "GetPowerStoreArrays env filePath =
     (case ReadFile env (Clean env filePath) of
        Inl err \<Rightarrow> Inl err
      | Inr data \<Rightarrow>
          (case Unmarshal env data of
             Inl err \<Rightarrow> Inl err
           | Inr cfgArrays \<Rightarrow>
               (case cfgArrays of
                  [] \<Rightarrow> Inr (Map.empty, Map.empty, None)
                | first # _ \<Rightarrow>
                    (case arraysLoop env cfgArrays 0 Map.empty Map.empty Map.empty
                            (case first of None \<Rightarrow> None | Some _ \<Rightarrow> Some 0) False of
                       Inl err \<Rightarrow> Inl err
                     | Inr (heap, arrayMap, mapper, defaultArr) \<Rightarrow>
                         Inr ((\<lambda>globalID. case arrayMap globalID of
                                             None \<Rightarrow> None | Some p \<Rightarrow> heap p),
                              mapper,
                              (case defaultArr of None \<Rightarrow> None | Some p \<Rightarrow> heap p))))))"

text \<open>
  \<open>Locker.UpdateArrays\<close>: the returned error, the locker and the package variable
  \<open>IPToArray\<close> after the call.
\<close>

definition UpdateArrays ::
  "Env \<Rightarrow> 'a Locker_scheme \<Rightarrow> (string \<rightharpoonup> string) \<Rightarrow> string \<Rightarrow>
   error option \<times> 'a Locker_scheme \<times> (string \<rightharpoonup> string)" where
  "UpdateArrays env s IPToArray configPath =
     (case GetPowerStoreArrays env configPath of
        Inl err \<Rightarrow>
          (Some (Errorf (''can't get config for arrays: '' @ Error err)), s, IPToArray)
      | Inr (arrays', matcher, defaultArray') \<Rightarrow>
          (None, SetDefaultArray (SetArrays s arrays') defaultArray', matcher))"

text \<open>An entry of the configuration that is not flagged as the default.\<close>

definition notDefault :: "PowerStoreArray option \<Rightarrow> bool" where
  "notDefault e = (case e of None \<Rightarrow> True | Some a \<Rightarrow> \<not> IsDefault a)"

section \<open>Validating the connectivity of a host\<close>

record ValidateVolumeHostConnectivityRequest =
  NodeId :: string
  ArrayId :: string
  VolumeIds :: "string list"

record ValidateVolumeHostConnectivityResponse =
  Connected :: bool
  IosInProgress :: bool
  Messages :: "string list"

text \<open>
  \<open>Service.checkIfNodeIsConnected\<close>: the response as the call leaves it, and the
  returned error.
\<close>

definition checkIfNodeIsConnected ::
  "Env \<Rightarrow> string \<Rightarrow> string \<Rightarrow> ValidateVolumeHostConnectivityResponse \<Rightarrow>
   ValidateVolumeHostConnectivityResponse \<times> error option" where
  "checkIfNodeIsConnected env arrayID nodeID rep =
     (let rep1 = rep\<lparr>Connected := False\<rparr>;
          nodeIP = GetIPListFromString env nodeID
      in if length nodeIP = 0 then (rep1, Some (Errorf ''failed to parse node ID''))
         else
           let ip = last nodeIP;
               url = ''http://'' @ ip @ APIPort env @ ArrayStatus env @ ''/'' @ arrayID
           in case QueryArrayStatus env url of (connected', err) \<Rightarrow>
             let rep2 = (case err of
                           None \<Rightarrow> rep1
                         | Some e \<Rightarrow>
                             rep1\<lparr>Messages := Messages rep1 @
                               [''connectivity unknown for array '' @ arrayID @ '' to node ''
                                  @ nodeID @ '' due to '' @ Error e]\<rparr>)
             in if connected' then
                  (rep2\<lparr>Connected := True,
                         Messages := Messages rep2 @
                           [''array '' @ arrayID @ '' is connected to node '' @ nodeID]\<rparr>, None)
                else
                  (rep2\<lparr>Messages := Messages rep2 @
                           [''array '' @ arrayID @ '' is not connected to node '' @ nodeID]\<rparr>,
                   None))"

text \<open>
  The set \<open>globalIDs\<close> (a \<open>map[string]bool\<close> whose values are all \<open>true\<close>) is the
  list of its keys, in the order they were first stored.
\<close>

definition setKey :: "string \<Rightarrow> string list \<Rightarrow> string list" where
  "setKey k ks = (if k \<in> set ks then ks else ks @ [k])"

text \<open>
  \<open>Service.ValidateVolumeHostConnectivity\<close> calls an \<open>array.ParseVolumeID\<close> that
  returns a struct and an error, and reads the fields \<open>LocalUUID\<close>,
  \<open>LocalArrayGlobalID\<close> and \<open>Protocol\<close> of the struct. That version of the function is
  not among the source files (the \<open>ParseVolumeID\<close> above returns five strings), so it
  is a parameter, \<open>parseVolumeID\<close>, of the functions below: from the volume ID, the
  default array and the calls issued so far (the volume capability is always nil here)
  it gives a panic, or the struct with the error, and the calls issued up to its
  return. The record has the three fields that are read.
\<close>

record VolumeHandleFields =
  LocalUUID :: string
  LocalArrayGlobalID :: string
  Protocol :: string

type_synonym parseVolumeIDFn =
  "string \<Rightarrow> PowerStoreArray option \<Rightarrow> call list \<Rightarrow>
   (panic + (VolumeHandleFields \<times> error option)) \<times> call list"

text \<open>
  The first loop over \<open>req.GetVolumeIds()\<close> of
  \<open>Service.ValidateVolumeHostConnectivity\<close>, which collects the GlobalIDs.
\<close>

fun collectGlobalIDs ::
  "parseVolumeIDFn \<Rightarrow> 'a Locker_scheme \<Rightarrow> string list \<Rightarrow> string list \<Rightarrow> call list \<Rightarrow>
   (panic + string list) \<times> call list" where
  "collectGlobalIDs parseVolumeID s [] globalIDs calls = (Inr globalIDs, calls)"
| "collectGlobalIDs parseVolumeID s (volID # rest) globalIDs calls =
     (case parseVolumeID volID (DefaultArray s) calls of
        (Inl p, calls1) \<Rightarrow> (Inl p, calls1)
      | (Inr (volumeHandle, err), calls1) \<Rightarrow>
          let globalID = LocalArrayGlobalID volumeHandle in
          if err \<noteq> None \<or> globalID = [] then
            (case DefaultArray s of
               None \<Rightarrow> (Inl NilPointerDereference, calls1)
             | Some d \<Rightarrow>
                 collectGlobalIDs parseVolumeID s rest (setKey (GlobalID d) globalIDs) calls1)
          else collectGlobalIDs parseVolumeID s rest (setKey globalID globalIDs) calls1)"

text \<open>
  The inner loop over \<open>req.GetVolumeIds()\<close> for one \<open>globalID\<close>: \<open>Some\<close> of what the
  function returns from inside the loop, or \<open>None\<close> when the loop ends.
  \<open>log.Error(..., err.Error())\<close> panics on a nil \<open>err\<close>.
\<close>

fun checkVolumes ::
  "Env \<Rightarrow> parseVolumeIDFn \<Rightarrow> 'a Locker_scheme \<Rightarrow> string \<Rightarrow>
   ValidateVolumeHostConnectivityResponse \<Rightarrow> string list \<Rightarrow> call list \<Rightarrow>
   (panic + (ValidateVolumeHostConnectivityResponse option \<times> error option) option) \<times> call list" where
  "checkVolumes env parseVolumeID s globalID rep [] calls = (Inr None, calls)"
| "checkVolumes env parseVolumeID s globalID rep (volID # rest) calls =
     (case parseVolumeID volID (DefaultArray s) calls of
        (Inl p, calls1) \<Rightarrow> (Inl p, calls1)
      | (Inr (volumeHandle, _), calls1) \<Rightarrow>
          let id' = LocalUUID volumeHandle;
              globalIDForVol = LocalArrayGlobalID volumeHandle;
              protocol = Protocol volumeHandle
          in
          if globalIDForVol \<noteq> globalID then
            (Inr (Some (None, Some (Errorf (''invalid globalId '' @ globalID @ '' is provided'')))),
             calls1)
          else
            (case GetOneArray s globalID of (arraysConfig, err) \<Rightarrow>
               if err \<noteq> None \<or> arraysConfig = None then
                 (case err of
                    None \<Rightarrow> (Inl NilPointerDereference, calls1)
                  | Some e \<Rightarrow> (Inr (Some (None, Some e)), calls1))
               else
                 (case IsIOInProgress (Parse env) (Now env) id' arraysConfig protocol calls1 of
                    (Inl p, calls2) \<Rightarrow> (Inl p, calls2)
                  | (Inr None, calls2) \<Rightarrow>
                      (Inr (Some (Some (rep\<lparr>IosInProgress := True\<rparr>), None)), calls2)
                  | (Inr (Some _), calls2) \<Rightarrow>
                      checkVolumes env parseVolumeID s globalID rep rest calls2)))"

text \<open>
  The loop \<open>for globalID := range globalIDs\<close>, over the keys in the order of the visit.
\<close>

fun checkArrays ::
  "Env \<Rightarrow> parseVolumeIDFn \<Rightarrow> 'a Locker_scheme \<Rightarrow> ValidateVolumeHostConnectivityRequest \<Rightarrow>
   ValidateVolumeHostConnectivityResponse \<Rightarrow> string list \<Rightarrow> call list \<Rightarrow>
   (panic + (ValidateVolumeHostConnectivityResponse option \<times> error option)) \<times> call list" where
  "checkArrays env parseVolumeID s req rep [] calls = (Inr (Some rep, None), calls)"
| "checkArrays env parseVolumeID s req rep (globalID # rest) calls =
     (case checkIfNodeIsConnected env globalID (NodeId req) rep of
        (rep1, Some err) \<Rightarrow> (Inr (Some rep1, Some err), calls)
      | (rep1, None) \<Rightarrow>
          if length (VolumeIds req) > 0 then
            (case checkVolumes env parseVolumeID s globalID rep1 (VolumeIds req) calls of
               (Inl p, calls1) \<Rightarrow> (Inl p, calls1)
             | (Inr (Some result), calls1) \<Rightarrow> (Inr result, calls1)
             | (Inr None, calls1) \<Rightarrow> checkArrays env parseVolumeID s req rep1 rest calls1)
          else checkArrays env parseVolumeID s req rep1 rest calls)"

text \<open>
  \<open>Service.ValidateVolumeHostConnectivity\<close>: a panic, or the returned response (\<open>None\<close>
  for nil) and error, with the calls issued to the arrays.
\<close>

definition ValidateVolumeHostConnectivity ::
  "Env \<Rightarrow> parseVolumeIDFn \<Rightarrow> 'a Locker_scheme \<Rightarrow> ValidateVolumeHostConnectivityRequest \<Rightarrow>
   call list \<Rightarrow>
   (panic + (ValidateVolumeHostConnectivityResponse option \<times> error option)) \<times> call list" where
  "ValidateVolumeHostConnectivity env parseVolumeID s req calls =
     (let rep = \<lparr>Connected = False, IosInProgress = False, Messages = []\<rparr> in
      if (length (VolumeIds req) = 0 \<or> length (ArrayId req) = 0) \<and> length (NodeId req) = 0 then
        (Inr (Some (rep\<lparr>Messages := Messages rep @
                          [''ValidateVolumeHostConnectivity is implemented'']\<rparr>), None), calls)
      else if NodeId req = [] then
        (Inr (None, Some (Errorf ''the NodeID is a required field'')), calls)
      else
        (case (if ArrayId req = [] then
                 (case (if length (VolumeIds req) = 0 then
                          (case DefaultArray s of
                             None \<Rightarrow> Inl NilPointerDereference
                           | Some d \<Rightarrow> Inr (setKey (GlobalID d) []))
                        else Inr []) of
                    Inl p \<Rightarrow> (Inl p, calls)
                  | Inr globalIDs \<Rightarrow>
                      collectGlobalIDs parseVolumeID s (VolumeIds req) globalIDs calls)
               else (Inr (setKey (ArrayId req) []), calls)) of
           (Inl p, calls1) \<Rightarrow> (Inl p, calls1)
         | (Inr globalIDs, calls1) \<Rightarrow>
             checkArrays env parseVolumeID s req rep (rangeOrder env globalIDs) calls1))"

text \<open>
  The call that the probe of a parsed volume issues: for the per-volume series when
  the protocol is \<open>scsi\<close>, for the per-filesystem series otherwise.
\<close>

definition probeCall :: "VolumeHandleFields \<Rightarrow> call" where
  "probeCall h =
     (if Protocol h = ''scsi'' then CallPerformanceMetricsByVolume (LocalUUID h)
      else CallPerformanceMetricsByFileSystem (LocalUUID h))"

section \<open>Example inputs\<close>

text \<open>
  Concrete inputs on which the theorems below are evaluated: a stand-in for
  \<open>GetIPListFromString\<close> that knows two addresses, a client whose array answers every
  call without an error and with empty data, and an array with that client.
\<close>

definition exampleIPs :: "string \<Rightarrow> string list" where
  "exampleIPs s =
     (if s = ''10.0.0.9'' \<or> s = ''https://10.0.0.9/api/rest'' then [''10.0.0.9'']
      else if s = ''https://10.0.0.10/api/rest'' then [''10.0.0.10'']
      else [])"

definition exampleClient :: Client where
  "exampleClient =
     \<lparr>GetVolume = (\<lambda>calls volID. None),
      GetFS = (\<lambda>calls fsID. None),
      PerformanceMetricsByVolume = (\<lambda>calls volID. ([], None)),
      PerformanceMetricsByFileSystem = (\<lambda>calls fsID. ([], None)),
      ExecuteActionOnReplicationSession = (\<lambda>calls sessionID action params. None),
      GetVolumeGroup = (\<lambda>calls groupID. (\<lparr>vgID = [], ProtectionPolicyID = []\<rparr>, None)),
      ModifyVolumeGroup = (\<lambda>calls policyID groupID. None),
      DeleteVolumeGroup = (\<lambda>calls groupID. None),
      GetProtectionPolicyByName =
        (\<lambda>calls name. (\<lparr>ppID = [], Volumes = [], VolumeGroups = []\<rparr>, None)),
      DeleteProtectionPolicy = (\<lambda>calls policyID. None),
      GetReplicationRuleByName = (\<lambda>calls name. (\<lparr>rrID = [], ProtectionPolicies = []\<rparr>, None)),
      DeleteReplicationRule = (\<lambda>calls ruleID. None)\<rparr>"

definition exampleArray :: PowerStoreArray where
  "exampleArray =
     \<lparr>Endpoint = ''https://10.0.0.9/api/rest'', GlobalID = ''PS1'', Username = ''admin'',
      Password = ''secret'', NasName = ''nas1'', BlockProtocol = ''AUTO'', Insecure = True,
      IsDefault = False, NfsAcls = [], Client = Some exampleClient, IP = ''10.0.0.9''\<rparr>"

text \<open>
  A stand-in for \<open>time.Parse\<close> that reads two timestamps, thirty seconds apart, as
  nanoseconds since the epoch.
\<close>

definition exampleParse :: "string \<Rightarrow> string \<Rightarrow> error + int" where
  "exampleParse layout v =
     (if v = ''2024-01-01T00:00:30.000Z'' then Inr 1704067230000000000
      else if v = ''2024-01-01T00:00:00.000Z'' then Inr 1704067200000000000
      else Inl (Errorf ''cannot parse''))"

text \<open>
  A service that knows the example array, and a request to delete the protection group
  \<open>vg1\<close>, named \<open>group1\<close>, on it. On the array of \<open>deletionClient\<close> the volume group
  exists and has a protection policy, the deletion of the volume group answers not
  found, the protection policy of the name is still used by another volume group, and
  the replication rule of the name is used by no protection policy.
\<close>

definition deletionClient :: Client where
  "deletionClient =
     exampleClient
       \<lparr>GetVolumeGroup := (\<lambda>calls groupID. (\<lparr>vgID = ''vg1'', ProtectionPolicyID = ''pp1''\<rparr>, None)),
        DeleteVolumeGroup := (\<lambda>calls groupID. Some (API (APIError True False ''not found''))),
        GetProtectionPolicyByName :=
          (\<lambda>calls name. (\<lparr>ppID = ''pp1'', Volumes = [], VolumeGroups = [''vg2'']\<rparr>, None)),
        GetReplicationRuleByName :=
          (\<lambda>calls name. (\<lparr>rrID = ''rr1'', ProtectionPolicies = []\<rparr>, None))\<rparr>"

definition deletionService :: Service where
  "deletionService =
     \<lparr>arrays = [''PS1'' \<mapsto> exampleArray\<lparr>Client := Some deletionClient\<rparr>],
      defaultArray = Some (exampleArray\<lparr>Client := Some deletionClient\<rparr>),
      replicationContextPrefix = ''powerstore/''\<rparr>"

definition deletionRequest :: DeleteStorageProtectionGroupRequest where
  "deletionRequest =
     \<lparr>ProtectionGroupId = ''vg1'',
      ProtectionGroupAttributes =
        [''powerstore/globalID'' \<mapsto> ''PS1'', ''powerstore/VolumeGroupName'' \<mapsto> ''group1'']\<rparr>"

text \<open>
  An environment whose configuration file lists two arrays, neither flagged as the
  default, as the YAML decoder leaves them: without a client and without an IP.
\<close>

definition exampleConfig :: "PowerStoreArray option list" where
  "exampleConfig =
     [Some (exampleArray\<lparr>BlockProtocol := [], Client := None, IP := []\<rparr>),
      Some (exampleArray\<lparr>Endpoint := ''https://10.0.0.10/api/rest'', GlobalID := ''PS2'',
                          BlockProtocol := [], Client := None, IP := []\<rparr>)]"

definition exampleEnv :: Env where
  "exampleEnv =
     \<lparr>ReadFile = (\<lambda>path. if path = ''/etc/config.yaml'' then Inr ''arrays: ...''
                          else Inl (Errorf ''no such file'')),
      Clean = (\<lambda>path. path),
      Unmarshal = (\<lambda>data. Inr exampleConfig),
      LookupEnv = (\<lambda>name. None),
      EnvThrottlingRateLimit = ''X_CSI_POWERSTORE_THROTTLING_RATE_LIMIT'',
      Atoi = (\<lambda>v. Inl (Errorf ''invalid syntax'')),
      NewClientWithArgs = (\<lambda>endpoint username password options. Inr exampleClient),
      AutoDetectTransport = ''AUTO'',
      ToUpper = (\<lambda>v. v),
      GetIPListFromString = exampleIPs,
      QueryArrayStatus = (\<lambda>url. (True, None)),
      APIPort = '':8083'',
      ArrayStatus = ''/array-status'',
      Parse = exampleParse,
      Now = (\<lambda>calls n. 1704067265000000000),
      rangeOrder = (\<lambda>keys. keys)\<rparr>"

definition emptyLocker :: Locker where
  "emptyLocker = \<lparr>arrays = Map.empty, defaultArray = None\<rparr>"

text \<open>
  A client whose array fails the probe of \<open>vol1\<close> and reports fresh IO on every other
  volume, a locker that knows the example array with a given client, a request that
  names that array, the node \<open>10.0.0.9\<close> and the given volumes, and a stand-in for the
  \<open>ParseVolumeID\<close> that \<open>ValidateVolumeHostConnectivity\<close> calls, which puts the strings
  of the \<open>ParseVolumeID\<close> above into the fields.
\<close>

definition exampleParseVolumeID :: parseVolumeIDFn where
  "exampleParseVolumeID volID defaultArr calls =
     (case ParseVolumeID exampleIPs Map.empty volID defaultArr None calls of
        (Inl p, calls1) \<Rightarrow> (Inl p, calls1)
      | (Inr ((localVolumeID, arrayID, protocol, remote), err), calls1) \<Rightarrow>
          (Inr (\<lparr>LocalUUID = localVolumeID, LocalArrayGlobalID = arrayID,
                  Protocol = protocol\<rparr>, err), calls1))"

definition probeClient :: Client where
  "probeClient =
     exampleClient\<lparr>PerformanceMetricsByVolume :=
       (\<lambda>calls volID.
          if volID = ''vol1'' then ([], Some (Errorf ''connection refused''))
          else ([\<lparr>TotalIops = 3, Timestamp = ''2024-01-01T00:00:30.000Z''\<rparr>], None))\<rparr>"

definition lockerWith :: "Client \<Rightarrow> Locker" where
  "lockerWith cl =
     \<lparr>arrays = [''PS1'' \<mapsto> exampleArray\<lparr>Client := Some cl\<rparr>],
      defaultArray = Some (exampleArray\<lparr>Client := Some cl\<rparr>)\<rparr>"

definition connectivityRequest :: "string list \<Rightarrow> ValidateVolumeHostConnectivityRequest" where
  "connectivityRequest volumeIDs =
     \<lparr>NodeId = ''10.0.0.9'', ArrayId = ''PS1'', VolumeIds = volumeIDs\<rparr>"

text \<open>The fields of the example volume IDs \<open>vol1/PS1/scsi\<close> and \<open>vol2/PS1/scsi\<close>.\<close>

definition exampleFields :: "string \<Rightarrow> VolumeHandleFields" where
  "exampleFields volID =
     \<lparr>LocalUUID = take 4 volID, LocalArrayGlobalID = ''PS1'', Protocol = ''scsi''\<rparr>"

section \<open>Properties of the volume handle parser\<close>

lemma Split_not_Nil: "Split s sep \<noteq> []"
  by (induction s) (auto split: list.splits)

lemma Split_without_sep: "sep \<notin> set s \<Longrightarrow> Split s sep = [s]"
  by (induction s) auto

lemma Join_Split: "Join (Split s sep) sep = s"
proof (induction s)
  case Nil
  then show ?case by simp
next
  case (Cons c cs)
  show ?case
  proof (cases "c = sep")
    case True
    with Cons show ?thesis by (cases "Split cs sep") (simp_all add: Split_not_Nil)
  next
    case False
    obtain f fs where "Split cs sep = f # fs"
      using Split_not_Nil [of cs sep] by (cases "Split cs sep") auto
    with Cons False show ?thesis by (cases fs) auto
  qed
qed

lemma wellFormedLocal_fields:
  assumes "wellFormedLocal G seg"
  obtains l a p where "Split seg (CHR ''/'') = [l, a, p]" "G a = []"
    "seg = l @ ''/'' @ a @ ''/'' @ p"
proof -
  from assms obtain l a p where sp: "Split seg (CHR ''/'') = [l, a, p]" and g: "G a = []"
    by (auto simp: wellFormedLocal_def split: list.splits)
  have "Join (Split seg (CHR ''/'')) (CHR ''/'') = seg" by (rule Join_Split)
  with sp have "seg = l @ ''/'' @ a @ ''/'' @ p" by simp
  with sp g that show thesis by blast
qed

lemma wellFormedRemote_fields:
  assumes "wellFormedRemote seg"
  obtains r ra where "Split seg (CHR ''/'') = [r, ra]" "\<not> (r = [] \<and> ra = [])"
    "seg = r @ ''/'' @ ra"
proof -
  from assms obtain r ra where sp: "Split seg (CHR ''/'') = [r, ra]"
    and g: "\<not> (r = [] \<and> ra = [])"
    by (auto simp: wellFormedRemote_def split: list.splits)
  have "Join (Split seg (CHR ''/'')) (CHR ''/'') = seg" by (rule Join_Split)
  with sp have "seg = r @ ''/'' @ ra" by simp
  with sp g that show thesis by blast
qed

text \<open>
  C2. Decoding a well-formed non-legacy handle \<open>localID/arrayID/protocol\<close>, optionally
  followed by \<open>:remoteID/remoteArrayID\<close>, succeeds without a call to an array, and
  encoding the decoded fields gives the handle back, byte for byte.
\<close>

theorem ParseVolumeID_encode_roundtrip:
  assumes wf: "wellFormed G h"
  shows "\<exists>v. ParseVolumeID G M h d vc calls = (Inr (v, None), calls) \<and> encode v = h"
proof -
  have js: "Join (Split h (CHR '':'')) (CHR '':'') = h" by (rule Join_Split)
  from wf consider
      (single) seg where "Split h (CHR '':'') = [seg]" "wellFormedLocal G seg"
    | (metro) seg rseg where "Split h (CHR '':'') = [seg, rseg]" "wellFormedLocal G seg"
        "wellFormedRemote rseg"
    by (auto simp: wellFormed_def split: list.splits)
  then show ?thesis
  proof cases
    case single
    from single(2) obtain l a p where f: "Split seg (CHR ''/'') = [l, a, p]" "G a = []"
      "seg = l @ ''/'' @ a @ ''/'' @ p" by (rule wellFormedLocal_fields)
    from js single(1) have h: "h = seg" by simp
    with f(3) have ne: "h \<noteq> []" by simp
    have "ParseVolumeID G M h d vc calls = (Inr ((l, a, p, [], []), None), calls)"
      using ne single(1) f(1,2) by (simp add: ParseVolumeID_def parseRemote_def)
    moreover have "encode (l, a, p, [], []) = h" using h f(3) by (simp add: encode_def)
    ultimately show ?thesis by blast
  next
    case metro
    from metro(2) obtain l a p where f: "Split seg (CHR ''/'') = [l, a, p]" "G a = []"
      "seg = l @ ''/'' @ a @ ''/'' @ p" by (rule wellFormedLocal_fields)
    from metro(3) obtain r ra where g: "Split rseg (CHR ''/'') = [r, ra]"
      "\<not> (r = [] \<and> ra = [])" "rseg = r @ ''/'' @ ra" by (rule wellFormedRemote_fields)
    from js metro(1) have h: "h = seg @ '':'' @ rseg" by simp
    then have ne: "h \<noteq> []" by simp
    have "ParseVolumeID G M h d vc calls = (Inr ((l, a, p, r, ra), None), calls)"
      using ne metro(1) f(1,2) g(1) by (simp add: ParseVolumeID_def parseRemote_def)
    moreover have "encode (l, a, p, r, ra) = h" using h f(3) g(2,3) by (auto simp add: encode_def)
    ultimately show ?thesis by blast
  qed
qed

theorem ParseVolumeID_encode_roundtrip_witness:
  "wellFormed exampleIPs ''v1/PS1/scsi:v2/PS2'' \<and>
   (\<exists>v. ParseVolumeID exampleIPs Map.empty ''v1/PS1/scsi:v2/PS2'' None None [] = (Inr (v, None), [])
      \<and> encode v = ''v1/PS1/scsi:v2/PS2'')"
proof -
  have wf: "wellFormed exampleIPs ''v1/PS1/scsi:v2/PS2''"
    by (simp add: wellFormed_def wellFormedLocal_def wellFormedRemote_def exampleIPs_def)
  from ParseVolumeID_encode_roundtrip [OF wf] wf show ?thesis by blast
qed

text \<open>
  C3, as the claim states it, fails. With no array known at all, a handle that names the
  GlobalID \<open>PSunknown\<close> decodes without an error to that GlobalID, and a handle that
  names the address \<open>10.0.0.9\<close> decodes without an error to the empty array ID.
\<close>

theorem ParseVolumeID_unknown_array_counterexample:
  "ParseVolumeID exampleIPs Map.empty ''vol1/PSunknown/scsi'' None None []
     = (Inr ((''vol1'', ''PSunknown'', ''scsi'', [], []), None), [])
   \<and> ParseVolumeID exampleIPs Map.empty ''vol1/10.0.0.9/scsi'' None None []
     = (Inr ((''vol1'', [], ''scsi'', [], []), None), [])"
  by (simp add: ParseVolumeID_def parseRemote_def exampleIPs_def)

text \<open>
  C3, amended. \<open>ParseVolumeID\<close> does not look the array reference up in the registry of
  arrays. For a handle whose local segment has three fields or more, and whose remote
  segment, if there is one, has two or more, decoding succeeds without a call to an
  array: the array ID is the second field as it stands when that field holds no IP
  address, and otherwise what the IP index holds for the first address found, the empty
  string when it holds nothing.
\<close>

theorem ParseVolumeID_array_ref_unchecked:
  assumes loc: "Split h (CHR '':'') = seg # segs"
    and fields: "Split seg (CHR ''/'') = l # ref # p # rest"
    and remote: "(segs = [] \<and> r = [] \<and> ra = []) \<or>
                 (\<exists>rseg segs' rest'. segs = rseg # segs' \<and> Split rseg (CHR ''/'') = r # ra # rest')"
  shows "ParseVolumeID G M h d vc calls =
     (Inr ((l,
            (case G ref of
               [] \<Rightarrow> ref
             | ip # _ \<Rightarrow> (case M ip of None \<Rightarrow> [] | Some g \<Rightarrow> g)),
            p, r, ra), None), calls)"
proof -
  have ne: "h \<noteq> []" using loc fields by (cases h) auto
  from remote have pr: "parseRemote (seg # segs) = Inr (r, ra)"
    by (auto simp: parseRemote_def)
  show ?thesis using ne loc fields pr
    by (simp add: ParseVolumeID_def Let_def split: list.splits)
qed

theorem ParseVolumeID_array_ref_unchecked_witness:
  "ParseVolumeID exampleIPs Map.empty ''vol1/10.0.0.9/scsi:vol2/PS2'' None None []
     = (Inr ((''vol1'', [], ''scsi'', ''vol2'', ''PS2''), None), [])"
  using ParseVolumeID_array_ref_unchecked [of "''vol1/10.0.0.9/scsi:vol2/PS2''"
      "''vol1/10.0.0.9/scsi''" "[''vol2/PS2'']" "''vol1''" "''10.0.0.9''" "''scsi''" "[]"
      "''vol2''" "''PS2''" exampleIPs Map.empty None None "[]"]
  by (simp add: exampleIPs_def)

text \<open>
  C8. A bare handle (one field: no \<open>/\<close> and no \<open>:\<close>) decoded with no volume capability
  takes the GlobalID of the default array and asks that array for a block volume of
  that ID first: if the lookup succeeds the protocol is \<open>scsi\<close>. If it fails, the parser
  asks for a filesystem: if that lookup succeeds the protocol is \<open>nfs\<close>. If both fail,
  the parser returns an error: the failure of the filesystem lookup itself when it is a
  not-found API error, and otherwise an \<open>Unknown\<close> status error that carries its text.
\<close>

theorem ParseVolumeID_bare_handle:
  assumes bare: "h \<noteq> []" "CHR ''/'' \<notin> set h" "CHR '':'' \<notin> set h"
    and client: "Client d = Some cl"
  shows "ParseVolumeID G M h (Some d) None calls =
     (case GetVolume cl calls h of
        None \<Rightarrow>
          (Inr ((h, GlobalID d, ''scsi'', [], []), None), calls @ [CallGetVolume h])
      | Some volErr \<Rightarrow>
          (case GetFS cl (calls @ [CallGetVolume h]) h of
             None \<Rightarrow>
               (Inr ((h, GlobalID d, ''nfs'', [], []), None),
                calls @ [CallGetVolume h, CallGetFS h])
           | Some fsErr \<Rightarrow>
               (Inr ((h, GlobalID d, [], [], []),
                     Some (case fsErr of
                             API apiError \<Rightarrow>
                               if NotFound apiError then API apiError
                               else Status Unknown
                                      (''failure checking volume status: '' @ Error fsErr)
                           | _ \<Rightarrow> Status Unknown
                                      (''failure checking volume status: '' @ Error fsErr))),
                calls @ [CallGetVolume h, CallGetFS h])))"
  using bare client
  by (cases "GetVolume cl calls h"; cases "GetFS cl (calls @ [CallGetVolume h]) h")
     (auto simp: ParseVolumeID_def parseRemote_def Split_without_sep Let_def
           split: option.splits error.splits)

theorem ParseVolumeID_bare_handle_witness:
  "ParseVolumeID exampleIPs Map.empty ''vol1''
     (Some (exampleArray\<lparr>Client := Some (exampleClient\<lparr>GetVolume :=
        (\<lambda>calls volID. Some (API (APIError True False ''not found'')))\<rparr>)\<rparr>)) None []
   = (Inr ((''vol1'', ''PS1'', ''nfs'', [], []), None), [CallGetVolume ''vol1'', CallGetFS ''vol1''])"
proof -
  let ?cl = "exampleClient\<lparr>GetVolume :=
        (\<lambda>calls volID. Some (API (APIError True False ''not found'')))\<rparr>"
  let ?d = "exampleArray\<lparr>Client := Some ?cl\<rparr>"
  have bare: "''vol1'' \<noteq> []" "CHR ''/'' \<notin> set ''vol1''" "CHR '':'' \<notin> set ''vol1''"
    by simp_all
  have client: "Client ?d = Some ?cl" by simp
  from ParseVolumeID_bare_handle [OF bare client, of exampleIPs Map.empty "[]"]
  show ?thesis by (simp add: exampleClient_def exampleArray_def)
qed

text \<open>
  C10. The parser indexes the fields it has split without checking how many there are:
  on \<open>id/array\<close> the read of \<open>localVolumeHandle[2]\<close>, and on \<open>id/array/scsi:remote\<close>
  the read of \<open>remoteVolumeHandle[1]\<close>, are out of range, and the call panics, whatever
  the other arguments are.
\<close>

theorem ParseVolumeID_index_out_of_range:
  "ParseVolumeID G M ''id/array'' d vc calls = (Inl IndexOutOfRange, calls)
   \<and> ParseVolumeID G M ''id/array/scsi:remote'' d vc calls = (Inl IndexOutOfRange, calls)"
  by (simp add: ParseVolumeID_def parseRemote_def Let_def split: list.splits)

section \<open>Properties of the IO check\<close>

lemma Sub_less: "Sub a b < 60000000000 \<longleftrightarrow> a - b < 60000000000"
  by (simp add: Sub_def maxDuration_def minDuration_def Let_def)

lemma checkIfEntryIsLatest_iff:
  "checkIfEntryIsLatest P now ts \<longleftrightarrow>
     (\<exists>t. P ''2006-01-02T15:04:05Z'' ts = Inr t \<and> now - t < 60 * 1000000000)"
  by (cases "P ''2006-01-02T15:04:05Z'' ts") (simp_all add: checkIfEntryIsLatest_def Sub_less)

lemma lastEntries_iff:
  "i < int (length resp) \<Longrightarrow>
   lastEntries P N resp i \<longleftrightarrow>
     (\<exists>n. int n \<le> i \<and> length resp - 4 \<le> n \<and> TotalIops (resp ! n) > 0
          \<and> checkIfEntryIsLatest P (N n) (Timestamp (resp ! n)))"
proof (induction P N resp i rule: lastEntries.induct)
  case (1 P N resp i)
  show ?case
  proof (cases "i \<ge> int (length resp) - 4 \<and> i \<ge> 0")
    case False
    then have "lastEntries P N resp i = False" by (subst lastEntries.simps) auto
    moreover from False have "\<not> (\<exists>n. int n \<le> i \<and> length resp - 4 \<le> n)" by auto
    ultimately show ?thesis by blast
  next
    case True
    let ?hit = "TotalIops (resp ! nat i) > 0
            \<and> checkIfEntryIsLatest P (N (nat i)) (Timestamp (resp ! nat i))"
    show ?thesis
    proof (cases ?hit)
      case hit: True
      with True have "lastEntries P N resp i" by (subst lastEntries.simps) auto
      moreover from True hit have "\<exists>n. int n \<le> i \<and> length resp - 4 \<le> n \<and> TotalIops (resp ! n) > 0
          \<and> checkIfEntryIsLatest P (N n) (Timestamp (resp ! n))"
        by (intro exI [of _ "nat i"]) auto
      ultimately show ?thesis by blast
    next
      case nohit: False
      with True have eq: "lastEntries P N resp i = lastEntries P N resp (i - 1)"
        by (subst lastEntries.simps) auto
      from 1(2) have lt: "i - 1 < int (length resp)" by simp
      have ih: "lastEntries P N resp (i - 1) \<longleftrightarrow>
         (\<exists>n. int n \<le> i - 1 \<and> length resp - 4 \<le> n \<and> TotalIops (resp ! n) > 0
          \<and> checkIfEntryIsLatest P (N n) (Timestamp (resp ! n)))"
        using 1(1) [OF True _ lt] nohit by auto
      have "(\<exists>n. int n \<le> i - 1 \<and> length resp - 4 \<le> n \<and> TotalIops (resp ! n) > 0
          \<and> checkIfEntryIsLatest P (N n) (Timestamp (resp ! n)))
        \<longleftrightarrow> (\<exists>n. int n \<le> i \<and> length resp - 4 \<le> n \<and> TotalIops (resp ! n) > 0
          \<and> checkIfEntryIsLatest P (N n) (Timestamp (resp ! n)))" (is "?L \<longleftrightarrow> ?R")
      proof
        assume ?L then show ?R by force
      next
        assume ?R
        then obtain n where n: "int n \<le> i" "length resp - 4 \<le> n" "TotalIops (resp ! n) > 0"
          "checkIfEntryIsLatest P (N n) (Timestamp (resp ! n))" by blast
        with nohit True have "int n \<noteq> i" by auto
        with n show ?L by (intro exI [of _ n]) auto
      qed
      with eq ih show ?thesis by simp
    qed
  qed
qed

lemma lastEntries_all:
  "lastEntries P N resp (int (length resp) - 1) \<longleftrightarrow>
     (\<exists>n<length resp. length resp - 4 \<le> n \<and> TotalIops (resp ! n) > 0
          \<and> (\<exists>t. P ''2006-01-02T15:04:05Z'' (Timestamp (resp ! n)) = Inr t
                 \<and> N n - t < 60 * 1000000000))"
proof -
  have "int (length resp) - 1 < int (length resp)" by simp
  from lastEntries_iff [OF this, of P N]
  have "lastEntries P N resp (int (length resp) - 1) \<longleftrightarrow>
     (\<exists>n. int n \<le> int (length resp) - 1 \<and> length resp - 4 \<le> n \<and> TotalIops (resp ! n) > 0
          \<and> checkIfEntryIsLatest P (N n) (Timestamp (resp ! n)))" .
  moreover have "\<And>n. int n \<le> int (length resp) - 1 \<longleftrightarrow> n < length resp" by auto
  ultimately show ?thesis by (simp add: checkIfEntryIsLatest_iff conj_commute conj_left_commute)
qed


text \<open>
  C6. A probe of one volume on one array asks for the per-volume series when the
  protocol is \<open>scsi\<close> and for the per-filesystem series otherwise, and nothing else. It
  reports IO in progress (a nil error) exactly when the array answered without an error
  and one of the last four samples of the series has \<open>TotalIops > 0\<close> and a timestamp
  that parses and is less than sixty seconds older than the clock read for that sample.
\<close>

theorem IsIOInProgress_last_four_samples:
  assumes client: "Client a = Some cl"
    and query: "query = (if protocol = ''scsi'' then CallPerformanceMetricsByVolume volID
                         else CallPerformanceMetricsByFileSystem volID)"
    and answer: "(resp, err) = (if protocol = ''scsi'' then PerformanceMetricsByVolume cl calls volID
                         else PerformanceMetricsByFileSystem cl calls volID)"
  shows "\<exists>r. IsIOInProgress P N volID (Some a) protocol calls = (Inr r, calls @ [query])
     \<and> (r = None \<longleftrightarrow>
          err = None \<and>
          (\<exists>n<length resp. length resp - 4 \<le> n \<and> TotalIops (resp ! n) > 0
             \<and> (\<exists>t. P ''2006-01-02T15:04:05Z'' (Timestamp (resp ! n)) = Inr t
                    \<and> N (calls @ [query]) n - t < 60 * 1000000000)))"
proof (cases "protocol = ''scsi''")
  case True
  with answer have a: "PerformanceMetricsByVolume cl calls volID = (resp, err)" by simp
  show ?thesis
  proof (cases err)
    case None
    with True a client query show ?thesis
      by (auto simp add: IsIOInProgress_def lastEntries_all Let_def)
  next
    case (Some e)
    with True a client query show ?thesis
      by (simp add: IsIOInProgress_def Let_def)
  qed
next
  case False
  with answer have a: "PerformanceMetricsByFileSystem cl calls volID = (resp, err)" by simp
  show ?thesis
  proof (cases err)
    case None
    with False a client query show ?thesis
      by (auto simp add: IsIOInProgress_def lastEntries_all Let_def)
  next
    case (Some e)
    with False a client query show ?thesis
      by (simp add: IsIOInProgress_def Let_def)
  qed
qed

theorem IsIOInProgress_last_four_samples_witness:
  "IsIOInProgress exampleParse (\<lambda>calls n. 1704067265000000000) ''vol1''
     (Some (exampleArray\<lparr>Client := Some (exampleClient\<lparr>PerformanceMetricsByVolume :=
        (\<lambda>calls volID. ([\<lparr>TotalIops = 12, Timestamp = ''2024-01-01T00:00:00.000Z''\<rparr>,
                          \<lparr>TotalIops = 0, Timestamp = ''2024-01-01T00:00:30.000Z''\<rparr>,
                          \<lparr>TotalIops = 3, Timestamp = ''2024-01-01T00:00:30.000Z''\<rparr>], None))\<rparr>)\<rparr>))
     ''scsi'' []
   = (Inr None, [CallPerformanceMetricsByVolume ''vol1''])"
proof -
  let ?resp = "[\<lparr>TotalIops = 12, Timestamp = ''2024-01-01T00:00:00.000Z''\<rparr>,
                          \<lparr>TotalIops = 0, Timestamp = ''2024-01-01T00:00:30.000Z''\<rparr>,
                          \<lparr>TotalIops = 3, Timestamp = ''2024-01-01T00:00:30.000Z''\<rparr>]"
  let ?cl = "exampleClient\<lparr>PerformanceMetricsByVolume := (\<lambda>calls volID. (?resp, None))\<rparr>"
  let ?a = "exampleArray\<lparr>Client := Some ?cl\<rparr>"
  let ?N = "\<lambda>(calls :: call list) (n :: nat). (1704067265000000000 :: int)"
  have client: "Client ?a = Some ?cl" by simp
  have query: "CallPerformanceMetricsByVolume ''vol1'' = (if ''scsi'' = ''scsi'' then CallPerformanceMetricsByVolume ''vol1''
                         else CallPerformanceMetricsByFileSystem ''vol1'')" by simp
  have answer: "(?resp, None) = (if ''scsi'' = ''scsi'' then PerformanceMetricsByVolume ?cl [] ''vol1''
                         else PerformanceMetricsByFileSystem ?cl [] ''vol1'')" by simp
  have hit: "\<exists>n<length ?resp. length ?resp - 4 \<le> n \<and> TotalIops (?resp ! n) > 0
             \<and> (\<exists>t. exampleParse ''2006-01-02T15:04:05Z'' (Timestamp (?resp ! n)) = Inr t
                    \<and> ?N ([] @ [CallPerformanceMetricsByVolume ''vol1'']) n - t < 60 * 1000000000)"
    by (intro exI [of _ "2::nat"]) (simp add: exampleParse_def)
  from IsIOInProgress_last_four_samples [OF client query answer, of exampleParse ?N] hit
  show ?thesis by auto
qed

section \<open>Properties of the replication actions\<close>

text \<open>
  C4, as the claim states it, fails. \<open>System_Paused\<close> is one of the paused states of a
  session, and a Pause on a session in that state is issued to the array.
\<close>

theorem ExecuteAction_Pause_on_System_Paused_counterexample:
  "ExecuteAction \<lparr>rsID = ''rs1'', State = ''System_Paused'', Role = ''Source''\<rparr>
     (Some exampleClient) RsActionPause None []
   = (Inr None, [CallExecuteActionOnReplicationSession ''rs1'' RsActionPause None])"
  by (simp add: ExecuteAction_def validateRSState_def exampleClient_def)

text \<open>
  C4, amended. Resume on a session in state \<open>OK\<close>, Pause on a session in state \<open>Paused\<close>,
  \<open>Paused_For_Migration\<close> or \<open>Paused_For_NDU\<close>, and Failover on a session in state
  \<open>Failed_Over\<close> return success, and Failover on a session in state \<open>Failing_Over\<close>
  returns the \<open>Aborted\<close> status error that says the previous action is still executing.
  In all four cases no call is issued to the array: the calls are as they were, whatever
  the client is. In every other state, \<open>System_Paused\<close> among them, a Pause is issued to
  the array.
\<close>

theorem ExecuteAction_without_array_call:
  "(State session = ''OK'' \<longrightarrow>
      ExecuteAction session cl RsActionResume params calls = (Inr None, calls))
   \<and> (State session = ''Paused'' \<or> State session = ''Paused_For_Migration''
        \<or> State session = ''Paused_For_NDU'' \<longrightarrow>
      ExecuteAction session cl RsActionPause params calls = (Inr None, calls))
   \<and> (State session = ''Failing_Over'' \<longrightarrow>
      ExecuteAction session cl RsActionFailover params calls =
        (Inr (Some (Status Aborted (''Execute action: RS ('' @ rsID session
                                      @ '') is still executing previous action''))), calls))
   \<and> (State session = ''Failed_Over'' \<longrightarrow>
      ExecuteAction session cl RsActionFailover params calls = (Inr None, calls))
   \<and> (\<not> (State session = ''Paused'' \<or> State session = ''Paused_For_Migration''
           \<or> State session = ''Paused_For_NDU'') \<longrightarrow>
      snd (ExecuteAction session (Some c) RsActionPause params calls)
        = calls @ [CallExecuteActionOnReplicationSession (rsID session) RsActionPause params])"
  by (auto simp: ExecuteAction_def validateRSState_def Let_def split: option.splits error.splits)

theorem ExecuteAction_without_array_call_witness:
  "ExecuteAction \<lparr>rsID = ''rs1'', State = ''OK'', Role = ''Source''\<rparr> None RsActionResume None []
     = (Inr None, [])
   \<and> ExecuteAction \<lparr>rsID = ''rs1'', State = ''Paused'', Role = ''Source''\<rparr> None RsActionPause None []
     = (Inr None, [])
   \<and> ExecuteAction \<lparr>rsID = ''rs1'', State = ''Failing_Over'', Role = ''Source''\<rparr> None
        RsActionFailover (Some \<lparr>IsPlanned = True, Reverse = False\<rparr>) []
     = (Inr (Some (Status Aborted
          ''Execute action: RS (rs1) is still executing previous action'')), [])
   \<and> ExecuteAction \<lparr>rsID = ''rs1'', State = ''Failed_Over'', Role = ''Source''\<rparr> None
        RsActionFailover (Some \<lparr>IsPlanned = True, Reverse = False\<rparr>) []
     = (Inr None, [])
   \<and> snd (ExecuteAction \<lparr>rsID = ''rs1'', State = ''System_Paused'', Role = ''Source''\<rparr>
        (Some exampleClient) RsActionPause None [])
     = [CallExecuteActionOnReplicationSession ''rs1'' RsActionPause None]"
  using
    ExecuteAction_without_array_call
      [of "\<lparr>rsID = ''rs1'', State = ''OK'', Role = ''Source''\<rparr>" None None "[]"]
    ExecuteAction_without_array_call
      [of "\<lparr>rsID = ''rs1'', State = ''Paused'', Role = ''Source''\<rparr>" None None "[]"]
    ExecuteAction_without_array_call
      [of "\<lparr>rsID = ''rs1'', State = ''Failing_Over'', Role = ''Source''\<rparr>" None
          "Some \<lparr>IsPlanned = True, Reverse = False\<rparr>" "[]"]
    ExecuteAction_without_array_call
      [of "\<lparr>rsID = ''rs1'', State = ''Failed_Over'', Role = ''Source''\<rparr>" None
          "Some \<lparr>IsPlanned = True, Reverse = False\<rparr>" "[]"]
    ExecuteAction_without_array_call
      [of "\<lparr>rsID = ''rs1'', State = ''System_Paused'', Role = ''Source''\<rparr>" None None "[]"
          exampleClient]
  by simp

text \<open>
  When the session is neither in the desired state nor on its way to it, the action is
  issued to the array, once, with the session ID, the action and the failover
  parameters as given, and the failure to fail over from the destination becomes an
  \<open>Internal\<close> status error.
\<close>

lemma ExecuteAction_issues_action:
  assumes "validateRSState session action = (False, True, None)"
  shows "snd (ExecuteAction session (Some cl) action params calls)
         = calls @ [CallExecuteActionOnReplicationSession (rsID session) action params]"
  using assms by (auto simp: ExecuteAction_def Let_def split: option.splits error.splits)

lemma ExecuteAction_unable_to_failover:
  assumes "validateRSState session action = (False, True, None)"
    and "ExecuteActionOnReplicationSession cl calls (rsID session) action params
         = Some (API (APIError nf True m))"
  shows "fst (ExecuteAction session (Some cl) action params calls)
         = Inr (Some (Status Internal (''Execute action: Failed to modify RS ('' @ rsID session
                                        @ '') - Error ('' @ m @ '')'')))"
  using assms by (simp add: ExecuteAction_def)

text \<open>
  C1. Any other failure of the array call is not propagated. On a session in state
  \<open>OK\<close>, a Pause whose array call fails with a plain error, and a planned Failover
  whose array call fails with an API error other than the failure to fail over from the
  destination, are issued to the array and then return nil, as if they had succeeded.
\<close>

theorem ExecuteAction_drops_array_error:
  "ExecuteAction \<lparr>rsID = i, State = ''OK'', Role = r\<rparr>
     (Some (cl\<lparr>ExecuteActionOnReplicationSession :=
               (\<lambda>calls sessionID action params. Some (Errorf m))\<rparr>))
     RsActionPause None calls
   = (Inr None, calls @ [CallExecuteActionOnReplicationSession i RsActionPause None])
   \<and> ExecuteAction \<lparr>rsID = i, State = ''OK'', Role = r\<rparr>
     (Some (cl\<lparr>ExecuteActionOnReplicationSession :=
               (\<lambda>calls sessionID action params. Some (API (APIError nf False m)))\<rparr>))
     RsActionFailover (Some \<lparr>IsPlanned = True, Reverse = False\<rparr>) calls
   = (Inr None, calls @ [CallExecuteActionOnReplicationSession i RsActionFailover
                           (Some \<lparr>IsPlanned = True, Reverse = False\<rparr>)])"
  by (simp add: ExecuteAction_def validateRSState_def)

section \<open>Properties of the deletion of a protection group\<close>

lemma deleteVolumeGroupStep_calls:
  assumes "deleteVolumeGroupStep cl groupID calls = (e, calls1)"
  shows "\<exists>new. calls1 = calls @ new \<and> list_all volumeGroupCall new"
  using assms
  by (auto simp: deleteVolumeGroupStep_def Let_def volumeGroupCall_def
           split: prod.splits if_splits option.splits error.splits)

lemma deleteProtectionPolicyStep_calls:
  assumes "deleteProtectionPolicyStep cl vgName calls = (e, calls2)"
  shows "calls2 = calls @ [CallGetProtectionPolicyByName (''pp-'' @ vgName)] \<or>
         (\<exists>pp err. GetProtectionPolicyByName cl calls (''pp-'' @ vgName) = (pp, err)
            \<and> ppID pp \<noteq> [] \<and> Volumes pp = [] \<and> VolumeGroups pp = []
            \<and> calls2 = calls @ [CallGetProtectionPolicyByName (''pp-'' @ vgName),
                                 CallDeleteProtectionPolicy (ppID pp)])"
  using assms
  by (auto simp: deleteProtectionPolicyStep_def Let_def split: prod.splits if_splits)

lemma deleteReplicationRuleStep_calls:
  assumes "deleteReplicationRuleStep cl vgName calls = (e, calls3)"
  shows "calls3 = calls @ [CallGetReplicationRuleByName (''rr-'' @ vgName)] \<or>
         (\<exists>rr err. GetReplicationRuleByName cl calls (''rr-'' @ vgName) = (rr, err)
            \<and> rrID rr \<noteq> [] \<and> ProtectionPolicies rr = []
            \<and> calls3 = calls @ [CallGetReplicationRuleByName (''rr-'' @ vgName),
                                 CallDeleteReplicationRule (rrID rr)])"
  using assms
  by (auto simp: deleteReplicationRuleStep_def Let_def split: prod.splits if_splits)

lemma deleteVolumeGroupStep_tolerant:
  assumes "\<And>hist x. \<not> apiErrorOtherThanNotFound (snd (GetVolumeGroup cl hist x))"
    and "\<And>hist x y. \<not> apiErrorOtherThanNotFound (ModifyVolumeGroup cl hist x y)"
    and "\<And>hist x. \<not> apiErrorOtherThanNotFound (DeleteVolumeGroup cl hist x)"
  shows "fst (deleteVolumeGroupStep cl groupID calls) = None"
proof -
  obtain vg err where g: "GetVolumeGroup cl calls groupID = (vg, err)" by force
  with assms(1) [of calls groupID] have e: "\<not> apiErrorOtherThanNotFound err" by simp
  show ?thesis
    using g e assms(2) [of "calls @ [CallGetVolumeGroup groupID]" "[]" groupID]
      assms(3) [of "calls @ [CallGetVolumeGroup groupID]" groupID]
      assms(3) [of "calls @ [CallGetVolumeGroup groupID, CallModifyVolumeGroup [] groupID]" groupID]
    by (auto simp: deleteVolumeGroupStep_def Let_def split: option.splits error.splits)
qed

lemma deleteProtectionPolicyStep_tolerant:
  assumes "\<And>hist x. \<not> apiErrorOtherThanNotFound (snd (GetProtectionPolicyByName cl hist x))"
    and "\<And>hist x. \<not> apiErrorOtherThanNotFound (DeleteProtectionPolicy cl hist x)"
  shows "fst (deleteProtectionPolicyStep cl vgName calls) = None"
proof -
  obtain pp err where g: "GetProtectionPolicyByName cl calls (''pp-'' @ vgName) = (pp, err)" by force
  with assms(1) [of calls "''pp-'' @ vgName"] have e: "\<not> apiErrorOtherThanNotFound err" by simp
  show ?thesis using g e assms(2)
    by (auto simp: deleteProtectionPolicyStep_def Let_def)
qed

lemma deleteReplicationRuleStep_tolerant:
  assumes "\<And>hist x. \<not> apiErrorOtherThanNotFound (snd (GetReplicationRuleByName cl hist x))"
    and "\<And>hist x. \<not> apiErrorOtherThanNotFound (DeleteReplicationRule cl hist x)"
  shows "fst (deleteReplicationRuleStep cl vgName calls) = None"
proof -
  obtain rr err where g: "GetReplicationRuleByName cl calls (''rr-'' @ vgName) = (rr, err)" by force
  with assms(1) [of calls "''rr-'' @ vgName"] have e: "\<not> apiErrorOtherThanNotFound err" by simp
  show ?thesis using g e assms(2)
    by (auto simp: deleteReplicationRuleStep_def Let_def)
qed


lemma volumeGroupCall_not_delete:
  "list_all volumeGroupCall new \<Longrightarrow>
     CallDeleteProtectionPolicy i \<notin> set new \<and> CallDeleteReplicationRule i \<notin> set new"
  by (auto simp: list_all_iff volumeGroupCall_def)

text \<open>
  C7. In a call that reaches the array: a protection policy is deleted only right after
  the array, asked for the policy of the name \<open>pp-<group name>\<close>, answered with a policy
  of that ID that has no volumes and no volume groups, so a policy that still has a
  volume group is not deleted, whatever happened to the volume group of the request; a
  replication rule is deleted only right after the array, asked for the rule of the
  name \<open>rr-<group name>\<close>, answered with a rule of that ID that has no protection
  policies; and when no answer of the array is an API error other than not found (and
  the request carries the name of the volume group), the call returns the response.
\<close>

theorem DeleteStorageProtectionGroup_guards:
  assumes globalID: "ProtectionGroupAttributes req (replicationContextPrefix s @ ''globalID'')
                     = Some globalID"
    and arr: "Arrays s globalID = Some arr"
    and client: "Client arr = Some cl"
    and run: "DeleteStorageProtectionGroup s req calls = (res, calls')"
  shows "(\<forall>i. CallDeleteProtectionPolicy i \<in> set (drop (length calls) calls') \<longrightarrow>
            (\<exists>vgName hist rest pp err.
               ProtectionGroupAttributes req (replicationContextPrefix s @ ''VolumeGroupName'')
                 = Some vgName
               \<and> calls' = hist @ CallGetProtectionPolicyByName (''pp-'' @ vgName)
                               # CallDeleteProtectionPolicy i # rest
               \<and> GetProtectionPolicyByName cl hist (''pp-'' @ vgName) = (pp, err)
               \<and> ppID pp = i \<and> Volumes pp = [] \<and> VolumeGroups pp = []))
       \<and> (\<forall>i. CallDeleteReplicationRule i \<in> set (drop (length calls) calls') \<longrightarrow>
            (\<exists>vgName hist rr err.
               ProtectionGroupAttributes req (replicationContextPrefix s @ ''VolumeGroupName'')
                 = Some vgName
               \<and> calls' = hist @ [CallGetReplicationRuleByName (''rr-'' @ vgName),
                                   CallDeleteReplicationRule i]
               \<and> GetReplicationRuleByName cl hist (''rr-'' @ vgName) = (rr, err)
               \<and> rrID rr = i \<and> ProtectionPolicies rr = []))
       \<and> ((\<exists>vgName. ProtectionGroupAttributes req
                        (replicationContextPrefix s @ ''VolumeGroupName'') = Some vgName)
            \<and> (\<forall>hist x y.
                  \<not> apiErrorOtherThanNotFound (snd (GetVolumeGroup cl hist x))
                  \<and> \<not> apiErrorOtherThanNotFound (ModifyVolumeGroup cl hist x y)
                  \<and> \<not> apiErrorOtherThanNotFound (DeleteVolumeGroup cl hist x)
                  \<and> \<not> apiErrorOtherThanNotFound (snd (GetProtectionPolicyByName cl hist x))
                  \<and> \<not> apiErrorOtherThanNotFound (DeleteProtectionPolicy cl hist x)
                  \<and> \<not> apiErrorOtherThanNotFound (snd (GetReplicationRuleByName cl hist x))
                  \<and> \<not> apiErrorOtherThanNotFound (DeleteReplicationRule cl hist x))
            \<longrightarrow> res = Inr (Inr DeleteStorageProtectionGroupResponse))"
    (is "?PP \<and> ?RR \<and> ?OK")
proof -
  let ?groupID = "ProtectionGroupId req"
  let ?name = "ProtectionGroupAttributes req (replicationContextPrefix s @ ''VolumeGroupName'')"
  obtain e1 calls1 where s1: "deleteVolumeGroupStep cl ?groupID calls = (e1, calls1)" by force
  from deleteVolumeGroupStep_calls [OF s1] obtain new1
    where c1: "calls1 = calls @ new1" and n1: "list_all volumeGroupCall new1" by blast
  note nd1 = volumeGroupCall_not_delete [OF n1]
  show ?thesis
  proof (cases "e1 = None \<and> ?name \<noteq> None")
    case False
    then have "calls' = calls1"
      using run globalID arr client s1
      by (auto simp: DeleteStorageProtectionGroup_def Let_def split: option.splits)
    moreover from False have "?OK"
      using deleteVolumeGroupStep_tolerant [of cl ?groupID calls] s1 by auto
    ultimately show ?thesis using c1 nd1 by auto
  next
    case True
    then obtain vgName where vg: "?name = Some vgName" and e1: "e1 = None" by auto
    obtain e2 calls2 where s2: "deleteProtectionPolicyStep cl vgName calls1 = (e2, calls2)"
      by force
    obtain e3 calls3 where s3: "deleteReplicationRuleStep cl vgName calls2 = (e3, calls3)"
      by force
    let ?getPP = "CallGetProtectionPolicyByName (''pp-'' @ vgName)"
    let ?getRR = "CallGetReplicationRuleByName (''rr-'' @ vgName)"
    from deleteProtectionPolicyStep_calls [OF s2] obtain new2
      where c2: "calls2 = calls1 @ new2"
        and n2: "new2 = [?getPP] \<or>
          (\<exists>pp err. GetProtectionPolicyByName cl calls1 (''pp-'' @ vgName) = (pp, err)
            \<and> ppID pp \<noteq> [] \<and> Volumes pp = [] \<and> VolumeGroups pp = []
            \<and> new2 = [?getPP, CallDeleteProtectionPolicy (ppID pp)])"
      by auto
    from deleteReplicationRuleStep_calls [OF s3] obtain new3
      where c3: "calls3 = calls2 @ new3"
        and n3: "new3 = [?getRR] \<or>
          (\<exists>rr err. GetReplicationRuleByName cl calls2 (''rr-'' @ vgName) = (rr, err)
            \<and> rrID rr \<noteq> [] \<and> ProtectionPolicies rr = []
            \<and> new3 = [?getRR, CallDeleteReplicationRule (rrID rr)])"
      by auto
    have res: "(res, calls') =
        (case e2 of Some err \<Rightarrow> (Inr (Inl err), calls2)
         | None \<Rightarrow> (case e3 of Some err \<Rightarrow> (Inr (Inl err), calls3)
                    | None \<Rightarrow> (Inr (Inr DeleteStorageProtectionGroupResponse), calls3)))"
      using run globalID arr client s1 e1 vg s2 s3
      by (simp add: DeleteStorageProtectionGroup_def Let_def split: option.splits)
    have ok: "?OK"
    proof (intro impI)
      assume a: "(\<exists>vgName. ?name = Some vgName)
            \<and> (\<forall>hist x y.
                  \<not> apiErrorOtherThanNotFound (snd (GetVolumeGroup cl hist x))
                  \<and> \<not> apiErrorOtherThanNotFound (ModifyVolumeGroup cl hist x y)
                  \<and> \<not> apiErrorOtherThanNotFound (DeleteVolumeGroup cl hist x)
                  \<and> \<not> apiErrorOtherThanNotFound (snd (GetProtectionPolicyByName cl hist x))
                  \<and> \<not> apiErrorOtherThanNotFound (DeleteProtectionPolicy cl hist x)
                  \<and> \<not> apiErrorOtherThanNotFound (snd (GetReplicationRuleByName cl hist x))
                  \<and> \<not> apiErrorOtherThanNotFound (DeleteReplicationRule cl hist x))"
      from a have "fst (deleteProtectionPolicyStep cl vgName calls1) = None"
        by (intro deleteProtectionPolicyStep_tolerant) auto
      with s2 have e2: "e2 = None" by simp
      from a have "fst (deleteReplicationRuleStep cl vgName calls2) = None"
        by (intro deleteReplicationRuleStep_tolerant) auto
      with s3 have e3: "e3 = None" by simp
      from res e2 e3 show "res = Inr (Inr DeleteStorageProtectionGroupResponse)" by simp
    qed
    define tail where "tail = (if e2 = None then new3 else [])"
    have c': "calls' = calls1 @ new2 @ tail"
      using res c2 c3 by (auto simp: tail_def split: option.splits)
    have t: "tail = [] \<or> (e2 = None \<and> tail = new3)" by (simp add: tail_def)
    have "?PP"
    proof (intro allI impI)
      fix i assume "CallDeleteProtectionPolicy i \<in> set (drop (length calls) calls')"
      with c' c1 nd1 n3 t have "CallDeleteProtectionPolicy i \<in> set new2" by auto
      with n2 obtain pp err where
        pp: "GetProtectionPolicyByName cl calls1 (''pp-'' @ vgName) = (pp, err)"
          "Volumes pp = []" "VolumeGroups pp = []"
          "new2 = [?getPP, CallDeleteProtectionPolicy (ppID pp)]" "ppID pp = i"
        by auto
      from c' pp(4,5) have "calls' = calls1 @ ?getPP # CallDeleteProtectionPolicy i # tail"
        by simp
      with vg pp show "\<exists>vgName hist rest pp err.
             ?name = Some vgName
             \<and> calls' = hist @ CallGetProtectionPolicyByName (''pp-'' @ vgName)
                             # CallDeleteProtectionPolicy i # rest
             \<and> GetProtectionPolicyByName cl hist (''pp-'' @ vgName) = (pp, err)
             \<and> ppID pp = i \<and> Volumes pp = [] \<and> VolumeGroups pp = []"
        by blast
    qed
    moreover have "?RR"
    proof (intro allI impI)
      fix i assume "CallDeleteReplicationRule i \<in> set (drop (length calls) calls')"
      with c' c1 nd1 n2 have in3: "CallDeleteReplicationRule i \<in> set tail" by auto
      with t have tl: "tail = new3" by auto
      with in3 n3 obtain rr err where
        rr: "GetReplicationRuleByName cl calls2 (''rr-'' @ vgName) = (rr, err)"
          "ProtectionPolicies rr = []"
          "new3 = [?getRR, CallDeleteReplicationRule (rrID rr)]" "rrID rr = i"
        by auto
      from c' c2 tl rr(3,4) have "calls' = calls2 @ [?getRR, CallDeleteReplicationRule i]"
        by simp
      with vg rr show "\<exists>vgName hist rr err.
             ?name = Some vgName
             \<and> calls' = hist @ [CallGetReplicationRuleByName (''rr-'' @ vgName),
                                 CallDeleteReplicationRule i]
             \<and> GetReplicationRuleByName cl hist (''rr-'' @ vgName) = (rr, err)
             \<and> rrID rr = i \<and> ProtectionPolicies rr = []"
        by blast
    qed
    ultimately show ?thesis using ok by blast
  qed
qed

theorem DeleteStorageProtectionGroup_guards_witness:
  "DeleteStorageProtectionGroup deletionService deletionRequest []
   = (Inr (Inr DeleteStorageProtectionGroupResponse),
      [CallGetVolumeGroup ''vg1'', CallModifyVolumeGroup [] ''vg1'', CallDeleteVolumeGroup ''vg1'',
       CallGetProtectionPolicyByName ''pp-group1'',
       CallGetReplicationRuleByName ''rr-group1'', CallDeleteReplicationRule ''rr1''])"
proof -
  let ?arr = "exampleArray\<lparr>Client := Some deletionClient\<rparr>"
  have globalID: "ProtectionGroupAttributes deletionRequest
                    (replicationContextPrefix deletionService @ ''globalID'') = Some ''PS1''"
    by (simp add: deletionRequest_def deletionService_def)
  have arr: "Arrays deletionService ''PS1'' = Some ?arr"
    by (simp add: Arrays_def deletionService_def)
  have client: "Client ?arr = Some deletionClient" by simp
  obtain res calls' where
    run: "DeleteStorageProtectionGroup deletionService deletionRequest [] = (res, calls')"
    by force
  have calls': "calls' =
      [CallGetVolumeGroup ''vg1'', CallModifyVolumeGroup [] ''vg1'', CallDeleteVolumeGroup ''vg1'',
       CallGetProtectionPolicyByName ''pp-group1'',
       CallGetReplicationRuleByName ''rr-group1'', CallDeleteReplicationRule ''rr1'']"
    using run
    by (simp add: DeleteStorageProtectionGroup_def deletionRequest_def deletionService_def
          Arrays_def exampleArray_def deletionClient_def exampleClient_def
          deleteVolumeGroupStep_def deleteProtectionPolicyStep_def deleteReplicationRuleStep_def)
  have name: "\<exists>vgName. ProtectionGroupAttributes deletionRequest
                (replicationContextPrefix deletionService @ ''VolumeGroupName'') = Some vgName"
    by (simp add: deletionRequest_def deletionService_def)
  have tolerant: "\<forall>hist x y.
      \<not> apiErrorOtherThanNotFound (snd (GetVolumeGroup deletionClient hist x))
      \<and> \<not> apiErrorOtherThanNotFound (ModifyVolumeGroup deletionClient hist x y)
      \<and> \<not> apiErrorOtherThanNotFound (DeleteVolumeGroup deletionClient hist x)
      \<and> \<not> apiErrorOtherThanNotFound (snd (GetProtectionPolicyByName deletionClient hist x))
      \<and> \<not> apiErrorOtherThanNotFound (DeleteProtectionPolicy deletionClient hist x)
      \<and> \<not> apiErrorOtherThanNotFound (snd (GetReplicationRuleByName deletionClient hist x))
      \<and> \<not> apiErrorOtherThanNotFound (DeleteReplicationRule deletionClient hist x)"
    by (simp add: deletionClient_def exampleClient_def)
  from DeleteStorageProtectionGroup_guards [OF globalID arr client run] name tolerant
  have "res = Inr (Inr DeleteStorageProtectionGroupResponse)" by blast
  with run calls' show ?thesis by simp
qed

section \<open>Properties of the loading of the configuration\<close>

lemma initArray_keeps:
  assumes "initArray env a = Inr (a', ip)"
  shows "a' = a\<lparr>BlockProtocol := BlockProtocol a', Client := Client a', IP := ip\<rparr>"
    and "IsDefault a' = IsDefault a"
  using assms
  by (auto simp: initArray_def Let_def split: if_splits sum.splits list.splits)

lemma arraysLoop_keeps_default:
  assumes "arraysLoop env rest i heap arrayMap mapper dflt found = Inr (heap', arrayMap', mapper', dflt')"
    and "list_all notDefault rest"
  shows "dflt' = dflt"
  using assms
proof (induction rest arbitrary: i heap arrayMap mapper)
  case Nil
  then show ?case by simp
next
  case (Cons e rest)
  show ?case
  proof (cases e)
    case None
    with Cons.prems show ?thesis by simp
  next
    case (Some a)
    with Cons.prems obtain a' ip where ia: "initArray env a = Inr (a', ip)"
      by (auto split: sum.splits)
    from initArray_keeps(2) [OF ia] Cons.prems(2) Some have nd: "\<not> IsDefault a'"
      by (simp add: notDefault_def)
    from Cons.prems(1) Some ia nd
    have "arraysLoop env rest (i + 1) (heap(i \<mapsto> a')) (arrayMap(GlobalID a' \<mapsto> i))
            (mapper(ip \<mapsto> GlobalID a')) dflt found = Inr (heap', arrayMap', mapper', dflt')"
      by (simp add: Let_def)
    from Cons.IH [OF this] Cons.prems(2) show ?thesis by simp
  qed
qed

lemma arraysLoop_keeps_heap:
  assumes "arraysLoop env rest i heap arrayMap mapper dflt found = Inr (heap', arrayMap', mapper', dflt')"
    and "j < i"
  shows "heap' j = heap j"
  using assms
proof (induction rest arbitrary: i heap arrayMap mapper dflt found)
  case Nil
  then show ?case by simp
next
  case (Cons e rest)
  show ?case
  proof (cases e)
    case None
    with Cons.prems show ?thesis by simp
  next
    case (Some a)
    with Cons.prems obtain a' ip where ia: "initArray env a = Inr (a', ip)"
      by (auto split: sum.splits)
    from Cons.prems(1) Some ia obtain dflt1 found1 where
      "arraysLoop env rest (i + 1) (heap(i \<mapsto> a')) (arrayMap(GlobalID a' \<mapsto> i))
            (mapper(ip \<mapsto> GlobalID a')) dflt1 found1 = Inr (heap', arrayMap', mapper', dflt')"
      by (auto simp: Let_def split: if_splits)
    from Cons.IH [OF this] Cons.prems(2) show ?thesis by simp
  qed
qed

text \<open>
  C9. When the configuration lists at least one array, the first entry is an array, no
  entry is flagged as the default, and the configuration loads (\<open>UpdateArrays\<close> returns
  no error), the default array that \<open>GetPowerStoreArrays\<close> returns, and that
  \<open>DefaultArray\<close> yields afterwards, is the first array of the configuration, as the
  loading has completed it: with its client, its block protocol and its IP set, and
  nothing else changed.
\<close>

theorem UpdateArrays_first_array_is_default:
  assumes read: "ReadFile env (Clean env configPath) = Inr data"
    and cfg: "Unmarshal env data = Inr (Some first # others)"
    and nodefault: "list_all notDefault (Some first # others)"
    and loaded: "UpdateArrays env s IPToArray configPath = (None, s', IPToArray')"
  shows "\<exists>first' ip arrays' mapper.
           initArray env first = Inr (first', ip)
         \<and> GetPowerStoreArrays env configPath = Inr (arrays', mapper, Some first')
         \<and> DefaultArray s' = Some first'
         \<and> first' = first\<lparr>BlockProtocol := BlockProtocol first', Client := Client first',
                            IP := ip\<rparr>"
proof -
  from loaded obtain arrays' mapper d where
    g: "GetPowerStoreArrays env configPath = Inr (arrays', mapper, d)"
    and s': "s' = SetDefaultArray (SetArrays s arrays') d"
    by (auto simp: UpdateArrays_def split: sum.splits)
  from g read cfg obtain heap arrayMap dflt where
    loop: "arraysLoop env (Some first # others) 0 Map.empty Map.empty Map.empty (Some 0) False
             = Inr (heap, arrayMap, mapper, dflt)"
    and d: "d = (case dflt of None \<Rightarrow> None | Some p \<Rightarrow> heap p)"
    by (auto simp: GetPowerStoreArrays_def split: sum.splits)
  from arraysLoop_keeps_default [OF loop nodefault] have dflt: "dflt = Some 0" .
  from loop obtain first' ip where ia: "initArray env first = Inr (first', ip)"
    by (auto split: sum.splits)
  from initArray_keeps(2) [OF ia] nodefault have nd: "\<not> IsDefault first'"
    by (simp add: notDefault_def)
  from loop ia nd have
    "arraysLoop env others (0 + 1) (Map.empty(0 \<mapsto> first')) (Map.empty(GlobalID first' \<mapsto> 0))
       (Map.empty(ip \<mapsto> GlobalID first')) (Some 0) False = Inr (heap, arrayMap, mapper, dflt)"
    by (simp add: Let_def)
  from arraysLoop_keeps_heap [OF this, of 0] have "heap 0 = Some first'" by simp
  with d dflt have "d = Some first'" by simp
  with g s' ia initArray_keeps(1) [OF ia] show ?thesis
    by (simp add: DefaultArray_def SetDefaultArray_def SetArrays_def)
qed

theorem UpdateArrays_first_array_is_default_witness:
  "DefaultArray (fst (snd (UpdateArrays exampleEnv emptyLocker Map.empty ''/etc/config.yaml'')))
   = Some exampleArray"
proof -
  let ?first = "exampleArray\<lparr>BlockProtocol := [], Client := None, IP := []\<rparr>"
  let ?second = "exampleArray\<lparr>Endpoint := ''https://10.0.0.10/api/rest'', GlobalID := ''PS2'',
                          BlockProtocol := [], Client := None, IP := []\<rparr>"
  have read: "ReadFile exampleEnv (Clean exampleEnv ''/etc/config.yaml'') = Inr ''arrays: ...''"
    by (simp add: exampleEnv_def)
  have cfg: "Unmarshal exampleEnv ''arrays: ...'' = Inr (Some ?first # [Some ?second])"
    by (simp add: exampleEnv_def exampleConfig_def)
  have nodefault: "list_all notDefault (Some ?first # [Some ?second])"
    by (simp add: notDefault_def exampleArray_def)
  have init1: "initArray exampleEnv ?first = Inr (exampleArray, ''10.0.0.9'')"
    by (simp add: initArray_def exampleEnv_def exampleArray_def exampleIPs_def)
  have init2: "initArray exampleEnv ?second
      = Inr (exampleArray\<lparr>Endpoint := ''https://10.0.0.10/api/rest'', GlobalID := ''PS2'',
                          IP := ''10.0.0.10''\<rparr>, ''10.0.0.10'')"
    by (simp add: initArray_def exampleEnv_def exampleArray_def exampleIPs_def)
  obtain e s' m where
    u: "UpdateArrays exampleEnv emptyLocker Map.empty ''/etc/config.yaml'' = (e, s', m)"
    by (metis prod_cases3)
  have e: "e = None"
    using u read cfg init1 init2
    by (auto simp: UpdateArrays_def GetPowerStoreArrays_def Let_def exampleArray_def
             split: sum.splits if_splits)
  from UpdateArrays_first_array_is_default [OF read cfg nodefault u [unfolded e]] init1
  have "DefaultArray s' = Some exampleArray" by auto
  with u show ?thesis by simp
qed

section \<open>Properties of the connectivity validation\<close>

lemma IsIOInProgress_one_call:
  assumes "Client a = Some cl"
  shows "\<exists>r. IsIOInProgress P N (LocalUUID h) (Some a) (Protocol h) c
           = (Inr r, c @ [probeCall h])"
  using assms
  by (auto simp: IsIOInProgress_def probeCall_def Let_def split: prod.splits option.splits)

lemma checkIfNodeIsConnected_ok:
  assumes "GetIPListFromString env nodeID \<noteq> []"
  shows "snd (checkIfNodeIsConnected env g nodeID rep) = None"
    and "IosInProgress (fst (checkIfNodeIsConnected env g nodeID rep)) = IosInProgress rep"
  using assms
  by (auto simp: checkIfNodeIsConnected_def Let_def split: prod.splits option.splits)

lemma checkVolumes_skips:
  assumes arr: "arrays s g = Some a" "Client a = Some cl"
    and parse: "\<forall>u\<in>set pre. \<forall>c. parseVolumeID u (DefaultArray s) c = (Inr (H u, E u), c)
                  \<and> LocalArrayGlobalID (H u) = g"
    and noio: "\<forall>u\<in>set pre. \<forall>c. fst (IsIOInProgress (Parse env) (Now env) (LocalUUID (H u))
                  (Some a) (Protocol (H u)) c) \<noteq> Inr None"
  shows "checkVolumes env parseVolumeID s g rep (pre @ rest) calls
         = checkVolumes env parseVolumeID s g rep rest (calls @ map (\<lambda>u. probeCall (H u)) pre)"
  using parse noio
proof (induction pre arbitrary: calls)
  case Nil
  show ?case by simp
next
  case (Cons u pre)
  from Cons.prems(1) have p: "parseVolumeID u (DefaultArray s) calls = (Inr (H u, E u), calls)"
    and gid: "LocalArrayGlobalID (H u) = g" by auto
  from arr(1) have ga: "GetOneArray s g = (Some a, None)" by (simp add: GetOneArray_def)
  from IsIOInProgress_one_call [OF arr(2), of "Parse env" "Now env" "H u" calls]
  obtain r where io: "IsIOInProgress (Parse env) (Now env) (LocalUUID (H u)) (Some a)
      (Protocol (H u)) calls = (Inr r, calls @ [probeCall (H u)])" by auto
  from Cons.prems(2) have "fst (IsIOInProgress (Parse env) (Now env) (LocalUUID (H u)) (Some a)
      (Protocol (H u)) calls) \<noteq> Inr None" by simp
  with io have "r \<noteq> None" by auto
  then obtain e where r: "r = Some e" by auto
  have step: "checkVolumes env parseVolumeID s g rep ((u # pre) @ rest) calls
      = checkVolumes env parseVolumeID s g rep (pre @ rest) (calls @ [probeCall (H u)])"
    using p gid ga io r by (simp add: Let_def)
  have "checkVolumes env parseVolumeID s g rep (pre @ rest) (calls @ [probeCall (H u)])
      = checkVolumes env parseVolumeID s g rep rest
          ((calls @ [probeCall (H u)]) @ map (\<lambda>u. probeCall (H u)) pre)"
    using Cons.prems by (intro Cons.IH) auto
  with step show ?case by simp
qed

lemma ValidateVolumeHostConnectivity_one_array:
  assumes "NodeId req \<noteq> []" "GetIPListFromString env (NodeId req) \<noteq> []"
    "ArrayId req = g" "g \<noteq> []" "rangeOrder env [g] = [g]"
  shows "ValidateVolumeHostConnectivity env parseVolumeID s req calls =
     (let rep1 = fst (checkIfNodeIsConnected env g (NodeId req)
                   \<lparr>Connected = False, IosInProgress = False, Messages = []\<rparr>)
      in case checkVolumes env parseVolumeID s g rep1 (VolumeIds req) calls of
           (Inl p, calls1) \<Rightarrow> (Inl p, calls1)
         | (Inr (Some result), calls1) \<Rightarrow> (Inr result, calls1)
         | (Inr None, calls1) \<Rightarrow> (Inr (Some rep1, None), calls1))"
proof -
  let ?rep0 = "\<lparr>Connected = False, IosInProgress = False, Messages = []\<rparr>"
  obtain rep1 e where c: "checkIfNodeIsConnected env g (NodeId req) ?rep0 = (rep1, e)" by force
  with checkIfNodeIsConnected_ok(1) [OF assms(2), of g ?rep0] have e: "e = None" by simp
  show ?thesis
  proof (cases "VolumeIds req")
    case Nil
    with assms c e show ?thesis
      by (simp add: ValidateVolumeHostConnectivity_def setKey_def)
  next
    case (Cons v vs)
    with assms c e show ?thesis
      by (simp add: ValidateVolumeHostConnectivity_def setKey_def
            split: prod.splits sum.splits option.splits)
  qed
qed


lemma checkVolumes_own_errors:
  assumes "checkVolumes env parseVolumeID s g rep vols calls = (Inr (Some (resp, Some e)), calls')"
  shows "e = Errorf ''array not found'' \<or> e = Errorf (''invalid globalId '' @ g @ '' is provided'')"
  using assms
proof (induction vols arbitrary: calls)
  case Nil
  then show ?case by simp
next
  case (Cons u vols)
  obtain r calls1 where p: "parseVolumeID u (DefaultArray s) calls = (r, calls1)" by force
  show ?case
  proof (cases r)
    case (Inl pn)
    with Cons.prems p show ?thesis by simp
  next
    case (Inr he)
    obtain h e0 where he: "he = (h, e0)" by force
    show ?thesis
    proof (cases "LocalArrayGlobalID h = g")
      case False
      with Cons.prems p Inr he show ?thesis by (simp add: Let_def)
    next
      case True
      show ?thesis
      proof (cases "arrays s g")
        case None
        with Cons.prems p Inr he True show ?thesis by (simp add: Let_def GetOneArray_def)
      next
        case (Some a)
        obtain q calls2 where io: "IsIOInProgress (Parse env) (Now env) (LocalUUID h) (Some a)
            (Protocol h) calls1 = (q, calls2)" by force
        show ?thesis
        proof (cases q)
          case (Inl pn)
          with Cons.prems p Inr he True Some io show ?thesis
            by (simp add: Let_def GetOneArray_def)
        next
          case q: (Inr v)
          show ?thesis
          proof (cases v)
            case None
            with Cons.prems p Inr he True Some io q show ?thesis
              by (simp add: Let_def GetOneArray_def)
          next
            case (Some pe)
            with Cons.prems p Inr he True \<open>arrays s g = Some a\<close> io q
            have "checkVolumes env parseVolumeID s g rep vols calls2
                  = (Inr (Some (resp, Some e)), calls')"
              by (simp add: Let_def GetOneArray_def)
            then show ?thesis by (rule Cons.IH)
          qed
        qed
      qed
    qed
  qed
qed

lemma checkIfNodeIsConnected_error:
  "snd (checkIfNodeIsConnected env g nodeID rep) = Some e \<Longrightarrow> e = Errorf ''failed to parse node ID''"
  by (auto simp: checkIfNodeIsConnected_def Let_def split: prod.splits option.splits if_splits)

lemma checkArrays_own_errors:
  assumes "checkArrays env parseVolumeID s req rep ids calls = (Inr (resp, Some e), calls')"
  shows "e = Errorf ''failed to parse node ID'' \<or> e = Errorf ''array not found''
         \<or> (\<exists>g. e = Errorf (''invalid globalId '' @ g @ '' is provided''))"
  using assms
proof (induction ids arbitrary: rep calls)
  case Nil
  then show ?case by simp
next
  case (Cons g ids)
  obtain rep1 ce where c: "checkIfNodeIsConnected env g (NodeId req) rep = (rep1, ce)" by force
  show ?case
  proof (cases ce)
    case (Some e')
    with Cons.prems c have "e = e'" by simp
    with checkIfNodeIsConnected_error [of env g "NodeId req" rep e'] c Some show ?thesis by simp
  next
    case None
    show ?thesis
    proof (cases "length (VolumeIds req) > 0")
      case False
      with Cons.prems c None
      have "checkArrays env parseVolumeID s req rep1 ids calls = (Inr (resp, Some e), calls')"
        by simp
      then show ?thesis by (rule Cons.IH)
    next
      case True
      obtain r calls1 where
        cv: "checkVolumes env parseVolumeID s g rep1 (VolumeIds req) calls = (r, calls1)"
        by force
      show ?thesis
      proof (cases r)
        case (Inl pn)
        with Cons.prems c None True cv show ?thesis by simp
      next
        case (Inr v)
        show ?thesis
        proof (cases v)
          case inner: None
          with Cons.prems c None True cv Inr
          have "checkArrays env parseVolumeID s req rep1 ids calls1 = (Inr (resp, Some e), calls')"
            by simp
          then show ?thesis by (rule Cons.IH)
        next
          case (Some result)
          with Cons.prems c None True cv Inr
          have "checkVolumes env parseVolumeID s g rep1 (VolumeIds req) calls
                = (Inr (Some (resp, Some e)), calls')"
            by auto
          from checkVolumes_own_errors [OF this] show ?thesis by blast
        qed
      qed
    qed
  qed
qed

lemma ValidateVolumeHostConnectivity_own_errors:
  assumes "ValidateVolumeHostConnectivity env parseVolumeID s req calls = (Inr (resp, Some e), calls')"
  shows "e = Errorf ''the NodeID is a required field'' \<or> e = Errorf ''failed to parse node ID''
         \<or> e = Errorf ''array not found''
         \<or> (\<exists>g. e = Errorf (''invalid globalId '' @ g @ '' is provided''))"
proof -
  let ?rep0 = "\<lparr>Connected = False, IosInProgress = False, Messages = []\<rparr>"
  from assms consider
      (node) "e = Errorf ''the NodeID is a required field''"
    | (arrays) ids calls1 where
        "checkArrays env parseVolumeID s req ?rep0 ids calls1 = (Inr (resp, Some e), calls')"
    by (auto simp: ValidateVolumeHostConnectivity_def Let_def
             split: if_splits prod.splits sum.splits option.splits)
  then show ?thesis
  proof cases
    case node
    then show ?thesis by simp
  next
    case arrays
    from checkArrays_own_errors [OF arrays] show ?thesis by blast
  qed
qed


lemma IsIOInProgress_errors:
  assumes "IsIOInProgress P N v a proto c = (Inr (Some pe), c')"
  shows "pe = Errorf ''no IOInProgress''
         \<or> (\<exists>m. pe = Errorf (''error '' @ m @ '' while while checking IsIOInProgress''))"
  using assms
  by (auto simp: IsIOInProgress_def Let_def split: option.splits prod.splits if_splits)

text \<open>The definitions that a run on the example inputs unfolds.\<close>

lemmas run_simps =
  ValidateVolumeHostConnectivity_def connectivityRequest_def lockerWith_def probeClient_def
  exampleClient_def exampleArray_def exampleEnv_def exampleIPs_def exampleParse_def
  exampleParseVolumeID_def exampleFields_def probeCall_def
  checkIfNodeIsConnected_def setKey_def ParseVolumeID_def parseRemote_def GetOneArray_def
  DefaultArray_def IsIOInProgress_def lastEntries.simps checkIfEntryIsLatest_def Sub_def
  maxDuration_def minDuration_def Let_def

text \<open>
  C5, as the claim states it, fails. A request for the volume \<open>vol1\<close>, whose probe fails
  with an error of the array, returns no error: it returns the response that the same
  request returns when the probe answers with an empty series. And a request for
  \<open>vol1\<close> and \<open>vol2\<close> goes on after the failed probe of \<open>vol1\<close>, probes \<open>vol2\<close> and
  reports its IO.
\<close>

theorem ValidateVolumeHostConnectivity_probe_error_counterexample:
  "ValidateVolumeHostConnectivity exampleEnv exampleParseVolumeID (lockerWith probeClient)
     (connectivityRequest [''vol1/PS1/scsi'']) []
   = (Inr (Some \<lparr>Connected = True, IosInProgress = False,
                  Messages = [''array PS1 is connected to node 10.0.0.9'']\<rparr>, None),
      [CallPerformanceMetricsByVolume ''vol1''])
   \<and> ValidateVolumeHostConnectivity exampleEnv exampleParseVolumeID (lockerWith exampleClient)
     (connectivityRequest [''vol1/PS1/scsi'']) []
   = (Inr (Some \<lparr>Connected = True, IosInProgress = False,
                  Messages = [''array PS1 is connected to node 10.0.0.9'']\<rparr>, None),
      [CallPerformanceMetricsByVolume ''vol1''])
   \<and> ValidateVolumeHostConnectivity exampleEnv exampleParseVolumeID (lockerWith probeClient)
     (connectivityRequest [''vol1/PS1/scsi'', ''vol2/PS1/scsi'']) []
   = (Inr (Some \<lparr>Connected = True, IosInProgress = True,
                  Messages = [''array PS1 is connected to node 10.0.0.9'']\<rparr>, None),
      [CallPerformanceMetricsByVolume ''vol1'', CallPerformanceMetricsByVolume ''vol2''])"
  by (simp add: run_simps)

text \<open>
  C5, amended. The error of a probe is never surfaced: an error that
  \<open>ValidateVolumeHostConnectivity\<close> returns is one of the four it makes itself (node ID
  missing, node ID without address, array not found, GlobalID of a volume other than
  the array checked), and no probe returns such an error. Nor does the error of a probe
  end the check. For a request that names a node with an address and an array of the
  registry, and whose volume IDs parse, without a call, to volumes of that array: when
  no probe of the volumes \<open>pre\<close> reports IO (each fails or finds none), then, if they
  are all the volumes, every one is probed in turn and the call returns the response
  with \<open>IosInProgress\<close> false and a nil error; and if a volume \<open>v\<close> follows whose probe
  reports IO, the check probes \<open>pre\<close>, then \<open>v\<close>, and returns the response with
  \<open>IosInProgress\<close> true and a nil error, without probing the volumes after \<open>v\<close>.
\<close>

theorem ValidateVolumeHostConnectivity_probe_errors_dropped:
  "(\<forall>resp e calls'.
      ValidateVolumeHostConnectivity env parseVolumeID s req calls = (Inr (resp, Some e), calls')
      \<longrightarrow> (e = Errorf ''the NodeID is a required field''
           \<or> e = Errorf ''failed to parse node ID''
           \<or> e = Errorf ''array not found''
           \<or> (\<exists>g. e = Errorf (''invalid globalId '' @ g @ '' is provided'')))
          \<and> (\<forall>P N v arr proto c c'. IsIOInProgress P N v arr proto c \<noteq> (Inr (Some e), c')))
   \<and> (NodeId req \<noteq> [] \<and> GetIPListFromString env (NodeId req) \<noteq> []
       \<and> ArrayId req = g \<and> g \<noteq> [] \<and> rangeOrder env [g] = [g]
       \<and> arrays s g = Some a \<and> Client a = Some cl
       \<and> (\<forall>u\<in>set (VolumeIds req). \<forall>c.
             parseVolumeID u (DefaultArray s) c = (Inr (H u, E u), c)
             \<and> LocalArrayGlobalID (H u) = g)
       \<and> (\<forall>u\<in>set pre. \<forall>c.
             fst (IsIOInProgress (Parse env) (Now env) (LocalUUID (H u)) (Some a)
                    (Protocol (H u)) c) \<noteq> Inr None)
       \<longrightarrow>
         (VolumeIds req = pre \<longrightarrow>
            ValidateVolumeHostConnectivity env parseVolumeID s req calls
            = (Inr (Some (fst (checkIfNodeIsConnected env g (NodeId req)
                          \<lparr>Connected = False, IosInProgress = False, Messages = []\<rparr>)), None),
               calls @ map (\<lambda>u. probeCall (H u)) pre)
            \<and> \<not> IosInProgress (fst (checkIfNodeIsConnected env g (NodeId req)
                          \<lparr>Connected = False, IosInProgress = False, Messages = []\<rparr>)))
         \<and> (\<forall>v post.
               VolumeIds req = pre @ v # post
               \<and> fst (IsIOInProgress (Parse env) (Now env) (LocalUUID (H v)) (Some a)
                        (Protocol (H v)) (calls @ map (\<lambda>u. probeCall (H u)) pre)) = Inr None
               \<longrightarrow>
               ValidateVolumeHostConnectivity env parseVolumeID s req calls
               = (Inr (Some ((fst (checkIfNodeIsConnected env g (NodeId req)
                          \<lparr>Connected = False, IosInProgress = False, Messages = []\<rparr>))
                             \<lparr>IosInProgress := True\<rparr>), None),
                  calls @ map (\<lambda>u. probeCall (H u)) (pre @ [v]))))"
  (is "?own \<and> (?pre \<longrightarrow> ?neg \<and> ?pos)")
proof (intro conjI impI allI)
  fix resp e calls'
  assume r: "ValidateVolumeHostConnectivity env parseVolumeID s req calls
             = (Inr (resp, Some e), calls')"
  from ValidateVolumeHostConnectivity_own_errors [OF r]
  show own: "e = Errorf ''the NodeID is a required field''
           \<or> e = Errorf ''failed to parse node ID''
           \<or> e = Errorf ''array not found''
           \<or> (\<exists>g. e = Errorf (''invalid globalId '' @ g @ '' is provided''))" .
  fix P N v arr proto c c'
  show "IsIOInProgress P N v arr proto c \<noteq> (Inr (Some e), c')"
  proof
    assume "IsIOInProgress P N v arr proto c = (Inr (Some e), c')"
    from IsIOInProgress_errors [OF this] own show False by auto
  qed
next
  let ?rep0 = "\<lparr>Connected = False, IosInProgress = False, Messages = []\<rparr>"
  let ?rep1 = "fst (checkIfNodeIsConnected env g (NodeId req) ?rep0)"
  let ?pc = "\<lambda>u. probeCall (H u)"
  assume pre: ?pre
  then have one: "ValidateVolumeHostConnectivity env parseVolumeID s req calls =
     (case checkVolumes env parseVolumeID s g ?rep1 (VolumeIds req) calls of
           (Inl p, calls1) \<Rightarrow> (Inl p, calls1)
         | (Inr (Some result), calls1) \<Rightarrow> (Inr result, calls1)
         | (Inr None, calls1) \<Rightarrow> (Inr (Some ?rep1, None), calls1))"
    using ValidateVolumeHostConnectivity_one_array [of req env g parseVolumeID s calls]
    by (simp add: Let_def)
  from pre have arr: "arrays s g = Some a" "Client a = Some cl" by auto
  from pre have noio: "\<forall>u\<in>set pre. \<forall>c.
             fst (IsIOInProgress (Parse env) (Now env) (LocalUUID (H u)) (Some a)
                    (Protocol (H u)) c) \<noteq> Inr None" by blast
  from pre have parse: "\<forall>u\<in>set (VolumeIds req). \<forall>c.
             parseVolumeID u (DefaultArray s) c = (Inr (H u, E u), c)
             \<and> LocalArrayGlobalID (H u) = g" by blast
  have skip: "\<And>rest. VolumeIds req = pre @ rest \<Longrightarrow>
      checkVolumes env parseVolumeID s g ?rep1 (pre @ rest) calls
      = checkVolumes env parseVolumeID s g ?rep1 rest (calls @ map ?pc pre)"
  proof -
    fix rest assume v: "VolumeIds req = pre @ rest"
    with parse have "\<forall>u\<in>set pre. \<forall>c. parseVolumeID u (DefaultArray s) c = (Inr (H u, E u), c)
                  \<and> LocalArrayGlobalID (H u) = g" by simp
    from checkVolumes_skips [of s g a cl pre parseVolumeID H E env ?rep1 rest calls, OF arr this noio]
    show "checkVolumes env parseVolumeID s g ?rep1 (pre @ rest) calls
      = checkVolumes env parseVolumeID s g ?rep1 rest (calls @ map ?pc pre)" .
  qed
  show "VolumeIds req = pre \<Longrightarrow>
        ValidateVolumeHostConnectivity env parseVolumeID s req calls
        = (Inr (Some ?rep1, None), calls @ map ?pc pre)"
    using one skip [of "[]"] by simp
  show "VolumeIds req = pre \<Longrightarrow> \<not> IosInProgress ?rep1"
    using pre checkIfNodeIsConnected_ok(2) [of env "NodeId req" g ?rep0] by simp
  fix v post
  assume hit: "VolumeIds req = pre @ v # post
               \<and> fst (IsIOInProgress (Parse env) (Now env) (LocalUUID (H v)) (Some a)
                        (Protocol (H v)) (calls @ map ?pc pre)) = Inr None"
  then have vols: "VolumeIds req = pre @ v # post" by simp
  from parse vols have pv: "parseVolumeID v (DefaultArray s) (calls @ map ?pc pre)
      = (Inr (H v, E v), calls @ map ?pc pre)" and gv: "LocalArrayGlobalID (H v) = g" by auto
  from arr(1) have ga: "GetOneArray s g = (Some a, None)" by (simp add: GetOneArray_def)
  from IsIOInProgress_one_call [OF arr(2), of "Parse env" "Now env" "H v" "calls @ map ?pc pre"]
  obtain r where io: "IsIOInProgress (Parse env) (Now env) (LocalUUID (H v)) (Some a)
      (Protocol (H v)) (calls @ map ?pc pre) = (Inr r, (calls @ map ?pc pre) @ [probeCall (H v)])"
    by auto
  with hit have r: "r = None" by simp
  have "checkVolumes env parseVolumeID s g ?rep1 (v # post) (calls @ map ?pc pre)
        = (Inr (Some (Some (?rep1\<lparr>IosInProgress := True\<rparr>), None)),
           calls @ map ?pc (pre @ [v]))"
    using pv gv ga io r by (simp add: Let_def)
  with skip [OF vols] vols one
  show "ValidateVolumeHostConnectivity env parseVolumeID s req calls
        = (Inr (Some (?rep1\<lparr>IosInProgress := True\<rparr>), None), calls @ map ?pc (pre @ [v]))"
    by simp
qed


theorem ValidateVolumeHostConnectivity_probe_errors_dropped_witness:
  "ValidateVolumeHostConnectivity exampleEnv exampleParseVolumeID (lockerWith probeClient)
     (connectivityRequest [''vol1/PS1/scsi'', ''vol2/PS1/scsi'']) []
   = (Inr (Some \<lparr>Connected = True, IosInProgress = True,
                  Messages = [''array PS1 is connected to node 10.0.0.9'']\<rparr>, None),
      [CallPerformanceMetricsByVolume ''vol1'', CallPerformanceMetricsByVolume ''vol2''])"
proof -
  let ?req = "connectivityRequest [''vol1/PS1/scsi'', ''vol2/PS1/scsi'']"
  let ?a = "exampleArray\<lparr>Client := Some probeClient\<rparr>"
  let ?rep0 = "\<lparr>Connected = False, IosInProgress = False, Messages = []\<rparr>"
  note T = ValidateVolumeHostConnectivity_probe_errors_dropped [of exampleEnv exampleParseVolumeID "lockerWith probeClient" ?req "[]"
      "''PS1''" ?a probeClient exampleFields "\<lambda>u. None" "[''vol1/PS1/scsi'']",
      THEN conjunct2, rule_format, THEN conjunct2, rule_format,
      of "''vol2/PS1/scsi''" "[]"]
  have "ValidateVolumeHostConnectivity exampleEnv exampleParseVolumeID (lockerWith probeClient)
          ?req []
        = (Inr (Some ((fst (checkIfNodeIsConnected exampleEnv ''PS1'' (NodeId ?req) ?rep0))
                        \<lparr>IosInProgress := True\<rparr>), None),
           [] @ map (\<lambda>u. probeCall (exampleFields u)) ([''vol1/PS1/scsi''] @ [''vol2/PS1/scsi'']))"
  proof (rule T, goal_cases)
    case 1
    show ?case
      by (simp add: connectivityRequest_def lockerWith_def probeClient_def exampleClient_def
            exampleArray_def exampleEnv_def exampleIPs_def exampleParseVolumeID_def
            exampleFields_def ParseVolumeID_def parseRemote_def DefaultArray_def
            IsIOInProgress_def Let_def)
  next
    case 2
    show ?case
      by (simp add: connectivityRequest_def probeClient_def exampleClient_def
            exampleArray_def exampleEnv_def exampleParse_def exampleFields_def probeCall_def
            IsIOInProgress_def lastEntries.simps checkIfEntryIsLatest_def Sub_def
            maxDuration_def minDuration_def Let_def)
  qed
  then show ?thesis
    by (simp add: connectivityRequest_def exampleEnv_def exampleIPs_def exampleFields_def
          probeCall_def checkIfNodeIsConnected_def Let_def)
qed

end
